theory Spec2Isabelle
  imports Complex_Main
begin

section \<open>Conventions of the embedding\<close>

text \<open>
  The two scripts (\<^verbatim>\<open>StockBinaryComparison.py\<close>, the backtest, and \<^verbatim>\<open>signal2.py\<close>, the
  point-in-time signal) are embedded function by function.

  \<^item> A Python \<^verbatim>\<open>float\<close> is modelled as a \<^typ>\<open>real\<close>. The functions are given twice: with exact
    arithmetic, and with every operation followed by a rounding function that is left open
    (the functions named \<open>_fl\<close>), for the property that depends on how an edge compares
    with the threshold.
  \<^item> A pandas timestamp is an \<^typ>\<open>int\<close>, the number of nanoseconds since the epoch (the
    unit pandas stores); \<^verbatim>\<open>Timedelta.days\<close> is the floor of a difference divided by the
    length of a day.
  \<^item> An exception is a value of type \<open>error\<close>; a function that can raise returns
    \<open>error + 'a\<close> with \<open>Inl\<close> for the exception.
  \<^item> A pandas Series is the list of its (label, value) entries; a label lookup returns the
    entry of the first row carrying that label.
\<close>

datatype error = ZeroDivisionError | KeyError | ValueError

definition and_then :: "error + 'a \<Rightarrow> ('a \<Rightarrow> error + 'b) \<Rightarrow> error + 'b" where
  "and_then m f = (case m of Inl e \<Rightarrow> Inl e | Inr v \<Rightarrow> f v)"

text \<open>Python's \<^verbatim>\<open>a / b\<close> on floats raises \<^verbatim>\<open>ZeroDivisionError\<close> when \<^verbatim>\<open>b == 0\<close>.\<close>

definition truediv :: "real \<Rightarrow> real \<Rightarrow> error + real" where
  "truediv a b = (if b = 0 then Inl ZeroDivisionError else Inr (a / b))"

text \<open>Python's \<^verbatim>\<open>int(a // b)\<close> on floats: the floor of the quotient, an error on zero.\<close>

definition floordiv :: "real \<Rightarrow> real \<Rightarrow> error + int" where
  "floordiv a b = (if b = 0 then Inl ZeroDivisionError else Inr \<lfloor>a / b\<rfloor>)"

text \<open>\<^verbatim>\<open>str.lower\<close> on ASCII text: an upper-case letter gets bit 5 set.\<close>

fun lower_char :: "char \<Rightarrow> char" where
  "lower_char (Char b0 b1 b2 b3 b4 b5 b6 b7) =
     (let n = (of_char (Char b0 b1 b2 b3 b4 b5 b6 b7) :: nat)
      in if 65 \<le> n \<and> n \<le> 90 then Char b0 b1 b2 b3 b4 True b6 b7
         else Char b0 b1 b2 b3 b4 b5 b6 b7)"

definition lower :: "string \<Rightarrow> string" where
  "lower s = map lower_char s"

section \<open>Execution model\<close>

record TradeParams =
  hysteresis_bps :: real
  cooldown_days :: int
  fee_bps :: real
  slippage_bps :: real

text \<open>
  \<^verbatim>\<open>exec_price(open_px, slippage_bps, side)\<close>: any side other than (a spelling of) "buy" is
  priced as a sell.
\<close>

definition exec_price :: "real \<Rightarrow> real \<Rightarrow> string \<Rightarrow> real" where
  "exec_price open_px slip side =
     (let s = slip / 10000
      in if lower side = ''buy'' then open_px * (1 + s) else open_px * (1 - s))"

definition fee_on_notional :: "real \<Rightarrow> real \<Rightarrow> real" where
  "fee_on_notional notional fee = \<bar>notional\<bar> * (fee / 10000)"

section \<open>Tables, series and timestamps\<close>

text \<open>
  A row of the aligned table: the date label and the four columns \<^verbatim>\<open>Open_Stock1\<close>,
  \<^verbatim>\<open>Close_Stock1\<close>, \<^verbatim>\<open>Open_Stock2\<close>, \<^verbatim>\<open>Close_Stock2\<close> that \<^verbatim>\<open>backtest_switching\<close> reads.
\<close>

record row =
  date :: int
  Open_Stock1 :: real
  Close_Stock1 :: real
  Open_Stock2 :: real
  Close_Stock2 :: real

type_synonym series = "(int \<times> real) list"

definition col1d :: "row list \<Rightarrow> (row \<Rightarrow> real) \<Rightarrow> series" where
  "col1d frame col = map (\<lambda>r. (date r, col r)) frame"

text \<open>
  \<^verbatim>\<open>sget(series, dt)\<close>: \<^verbatim>\<open>series.loc[dt]\<close>, and the first entry when several rows carry
  the label; a label that is not in the index raises \<^verbatim>\<open>KeyError\<close>.
\<close>

definition sget :: "series \<Rightarrow> int \<Rightarrow> error + real" where
  "sget series d = (case map_of series d of None \<Rightarrow> Inl KeyError | Some v \<Rightarrow> Inr v)"

definition day_ns :: int where
  "day_ns = 86400000000000"

text \<open>\<^verbatim>\<open>Timedelta.days\<close> of a difference of two timestamps.\<close>

definition days :: "int \<Rightarrow> int" where
  "days delta = delta div day_ns"

text \<open>\<^verbatim>\<open>frame[~frame.index.duplicated(keep="first")]\<close>: of the rows sharing a label, the first stays.\<close>

fun keep_first :: "('a \<Rightarrow> int) \<Rightarrow> int list \<Rightarrow> 'a list \<Rightarrow> 'a list" where
  "keep_first key seen [] = []"
| "keep_first key seen (x # xs) =
     (if key x \<in> set seen then keep_first key seen xs
      else x # keep_first key (key x # seen) xs)"

section \<open>Strategy core: \<^verbatim>\<open>backtest_switching\<close>\<close>

text \<open>
  What the loop records about a switch it executes. The source keeps only a counter and the
  last date; the log is an observer added to the state so that the per-switch properties can be
  stated. No other field depends on it.
\<close>

record switch_event =
  ev_index :: nat
  ev_date :: int
  ev_edge_bps :: real
  ev_from_asset1 :: bool
  ev_target_is_2 :: bool
  ev_buy_px :: real
  ev_cash_before_buy :: real
  ev_cash_after_buy :: real
  ev_close1 :: real
  ev_close2 :: real

record engine_state =
  shares1 :: int
  shares2 :: int
  cash :: real
  holding1 :: bool
  last_switch_date :: "int option"
  eq_active :: "real list"
  pos_flag :: "int list"
  switches :: nat
  turnover_notional :: real
  switch_hits :: "bool list"
  switch_log :: "switch_event list"

definition init_state :: "int \<Rightarrow> int \<Rightarrow> real \<Rightarrow> engine_state" where
  "init_state shares1_init shares2_init cash_init =
     \<lparr>shares1 = shares1_init, shares2 = shares2_init, cash = cash_init,
      holding1 = (shares1_init > 0), last_switch_date = None,
      eq_active = [], pos_flag = [], switches = 0, turnover_notional = 0,
      switch_hits = [], switch_log = []\<rparr>"

text \<open>The two overnight returns and their difference in basis points (positive favours asset 2).\<close>

definition edge_from_closes :: "real \<Rightarrow> real \<Rightarrow> real \<Rightarrow> real \<Rightarrow> error + real" where
  "edge_from_closes open1 prev_close1 open2 prev_close2 =
     and_then (truediv (open1 - prev_close1) prev_close1) (\<lambda>r1.
     and_then (truediv (open2 - prev_close2) prev_close2) (\<lambda>r2.
       Inr ((r2 - r1) * 10000)))"

definition overnight_edge :: "row list \<Rightarrow> nat \<Rightarrow> real \<Rightarrow> real \<Rightarrow> error + real" where
  "overnight_edge data i open1 open2 =
     (if i = 0 then Inr 0
      else
        let prev_dt = map date data ! (i - 1)
        in and_then (sget (col1d data Close_Stock1) prev_dt) (\<lambda>prev_close1.
           and_then (sget (col1d data Close_Stock2) prev_dt) (\<lambda>prev_close2.
             edge_from_closes open1 prev_close1 open2 prev_close2)))"

text \<open>Hysteresis and cooldown: the pair \<^verbatim>\<open>(do_switch, target_is_2)\<close>.\<close>

definition decide :: "TradeParams \<Rightarrow> nat \<Rightarrow> int \<Rightarrow> bool \<Rightarrow> int option \<Rightarrow> real \<Rightarrow> bool \<times> bool" where
  "decide params i d held1 last_switch edge_bps =
     (let cooldown_ok =
            (case last_switch of None \<Rightarrow> True
             | Some l \<Rightarrow> days (d - l) \<ge> cooldown_days params)
      in if i > 0 \<and> cooldown_ok then
           if held1 \<and> edge_bps > hysteresis_bps params then (True, True)
           else if \<not> held1 \<and> edge_bps < - hysteresis_bps params then (True, False)
           else (False, False)
         else (False, False))"

text \<open>Sell the current holding at the open with slippage; pay the fee on the notional.\<close>

definition sell_leg :: "TradeParams \<Rightarrow> real \<Rightarrow> real \<Rightarrow> engine_state \<Rightarrow> engine_state" where
  "sell_leg params open1 open2 st =
     (if holding1 st then
        let sell_px = exec_price open1 (slippage_bps params) ''sell'';
            notional = real_of_int (shares1 st) * sell_px
        in st\<lparr>cash := cash st + notional - fee_on_notional notional (fee_bps params),
              turnover_notional := turnover_notional st + \<bar>notional\<bar>,
              shares1 := 0\<rparr>
      else
        let sell_px = exec_price open2 (slippage_bps params) ''sell'';
            notional = real_of_int (shares2 st) * sell_px
        in st\<lparr>cash := cash st + notional - fee_on_notional notional (fee_bps params),
              turnover_notional := turnover_notional st + \<bar>notional\<bar>,
              shares2 := 0\<rparr>)"

text \<open>Buy the target with all cash, in whole shares; pay the fee on the notional.\<close>

definition buy_leg :: "TradeParams \<Rightarrow> real \<Rightarrow> real \<Rightarrow> bool \<Rightarrow> engine_state \<Rightarrow> error + engine_state" where
  "buy_leg params open1 open2 target_is_2 st =
     (if target_is_2 then
        let buy_px = exec_price open2 (slippage_bps params) ''buy''
        in and_then (floordiv (cash st) buy_px) (\<lambda>new_shares.
             let notional = real_of_int new_shares * buy_px
             in Inr (st\<lparr>shares2 := shares2 st + new_shares,
                        cash := cash st - notional - fee_on_notional notional (fee_bps params),
                        turnover_notional := turnover_notional st + \<bar>notional\<bar>,
                        holding1 := False\<rparr>))
      else
        let buy_px = exec_price open1 (slippage_bps params) ''buy''
        in and_then (floordiv (cash st) buy_px) (\<lambda>new_shares.
             let notional = real_of_int new_shares * buy_px
             in Inr (st\<lparr>shares1 := shares1 st + new_shares,
                        cash := cash st - notional - fee_on_notional notional (fee_bps params),
                        turnover_notional := turnover_notional st + \<bar>notional\<bar>,
                        holding1 := True\<rparr>)))"

text \<open>The "hit" proxy: the close of the asset switched into against the other close.\<close>

definition record_hit :: "nat \<Rightarrow> bool \<Rightarrow> real \<Rightarrow> real \<Rightarrow> engine_state \<Rightarrow> error + engine_state" where
  "record_hit i target_is_2 close1 close2 st =
     (if target_is_2 \<and> i > 0 then
        and_then (truediv close2 close1) (\<lambda>q.
          Inr (st\<lparr>switch_hits := switch_hits st @ [q > 1]\<rparr>))
      else if \<not> target_is_2 \<and> i > 0 then
        and_then (truediv close1 close2) (\<lambda>q.
          Inr (st\<lparr>switch_hits := switch_hits st @ [q > 1]\<rparr>))
      else Inr st)"

text \<open>The body of \<^verbatim>\<open>if do_switch:\<close>.\<close>

definition execute_switch ::
  "TradeParams \<Rightarrow> nat \<Rightarrow> int \<Rightarrow> real \<Rightarrow> real \<Rightarrow> real \<Rightarrow> real \<Rightarrow> real \<Rightarrow> bool
     \<Rightarrow> engine_state \<Rightarrow> error + engine_state" where
  "execute_switch params i d open1 close1 open2 close2 edge_bps target_is_2 st =
     (let st1 = sell_leg params open1 open2 st
      in and_then (buy_leg params open1 open2 target_is_2 st1) (\<lambda>st2.
           let st3 = st2\<lparr>last_switch_date := Some d, switches := switches st2 + 1\<rparr>;
               ev = \<lparr>ev_index = i, ev_date = d, ev_edge_bps = edge_bps,
                     ev_from_asset1 = holding1 st, ev_target_is_2 = target_is_2,
                     ev_buy_px = exec_price (if target_is_2 then open2 else open1)
                                   (slippage_bps params) ''buy'',
                     ev_cash_before_buy = cash st1, ev_cash_after_buy = cash st2,
                     ev_close1 = close1, ev_close2 = close2\<rparr>;
               st4 = st3\<lparr>switch_log := switch_log st3 @ [ev]\<rparr>
           in record_hit i target_is_2 close1 close2 st4))"

definition mark_to_close :: "real \<Rightarrow> real \<Rightarrow> engine_state \<Rightarrow> engine_state" where
  "mark_to_close close1 close2 st =
     (let equity_today =
            real_of_int (shares1 st) * close1 + real_of_int (shares2 st) * close2 + cash st
      in st\<lparr>eq_active := eq_active st @ [equity_today],
            pos_flag := pos_flag st @ [if holding1 st then 1 else - 1]\<rparr>)"

text \<open>One iteration of \<^verbatim>\<open>for i, dt in enumerate(idx)\<close>.\<close>

definition day_step :: "TradeParams \<Rightarrow> row list \<Rightarrow> nat \<times> int \<Rightarrow> engine_state \<Rightarrow> error + engine_state" where
  "day_step params data x st =
     (case x of (i, d) \<Rightarrow>
        and_then (sget (col1d data Open_Stock1) d) (\<lambda>open1.
        and_then (sget (col1d data Close_Stock1) d) (\<lambda>close1.
        and_then (sget (col1d data Open_Stock2) d) (\<lambda>open2.
        and_then (sget (col1d data Close_Stock2) d) (\<lambda>close2.
        and_then (overnight_edge data i open1 open2) (\<lambda>edge_bps.
          case decide params i d (holding1 st) (last_switch_date st) edge_bps of
            (do_switch, target_is_2) \<Rightarrow>
              and_then
                (if do_switch
                 then execute_switch params i d open1 close1 open2 close2 edge_bps target_is_2 st
                 else Inr st)
                (\<lambda>st'. Inr (mark_to_close close1 close2 st'))))))))"

fun active_loop :: "TradeParams \<Rightarrow> row list \<Rightarrow> (nat \<times> int) list \<Rightarrow> engine_state \<Rightarrow> error + engine_state" where
  "active_loop params data [] st = Inr st"
| "active_loop params data (x # xs) st =
     and_then (day_step params data x st) (active_loop params data xs)"

text \<open>The whole active loop, from the initial state, over the index of the table.\<close>

definition engine_run :: "row list \<Rightarrow> int \<Rightarrow> int \<Rightarrow> real \<Rightarrow> TradeParams \<Rightarrow> error + engine_state" where
  "engine_run data shares1_init shares2_init cash_init params =
     active_loop params data (enumerate 0 (map date data))
       (init_state shares1_init shares2_init cash_init)"

text \<open>
  The passive equity, computed column-wise before the loop: duplicates of a label are dropped
  when the index is not unique, and \<^verbatim>\<open>reindex(idx)\<close> looks every label of the index up
  (\<open>None\<close> standing for the NaN of a label that is not found).
\<close>

definition passive_equity_series :: "row list \<Rightarrow> int \<Rightarrow> int \<Rightarrow> real \<Rightarrow> real option list" where
  "passive_equity_series data shares1_init shares2_init cash_init =
     (let c1 = col1d data Close_Stock1;
          c2 = col1d data Close_Stock2;
          pes = map (\<lambda>((d, a), (_, b)).
                       (d, real_of_int shares1_init * a + real_of_int shares2_init * b + cash_init))
                  (zip c1 c2);
          pes' = (if distinct (map fst pes) then pes else keep_first fst [] pes)
      in map (map_of pes') (map date data))"

record results =
  Index :: "int list"
  Equity_Active :: "real list"
  Equity_Passive :: "real option list"
  PositionFlag :: "int list"

record stats =
  Switches :: nat
  Turnover_Notional :: real
  HitRate :: "real option"

text \<open>\<^verbatim>\<open>float(np.mean(switch_hits)) if len(switch_hits) else np.nan\<close>, with \<open>None\<close> for NaN.\<close>

definition hit_rate :: "bool list \<Rightarrow> real option" where
  "hit_rate hits =
     (if hits = [] then None
      else Some (real (length (filter (\<lambda>h. h) hits)) / real (length hits)))"

definition backtest_switching ::
  "row list \<Rightarrow> int \<Rightarrow> int \<Rightarrow> real \<Rightarrow> TradeParams \<Rightarrow> error + (results \<times> stats)" where
  "backtest_switching data shares1_init shares2_init cash_init params =
     (let passive = passive_equity_series data shares1_init shares2_init cash_init
      in and_then (engine_run data shares1_init shares2_init cash_init params) (\<lambda>st.
           Inr (\<lparr>Index = map date data, Equity_Active = eq_active st,
                  Equity_Passive = passive, PositionFlag = pos_flag st\<rparr>,
                \<lparr>Switches = switches st, Turnover_Notional = turnover_notional st,
                  HitRate = hit_rate (switch_hits st)\<rparr>)))"

section \<open>Strategy core with rounded arithmetic\<close>

text \<open>
  The same functions once more, with the rounding of doubles made explicit. Every arithmetic
  operation on floats (\<open>+\<close>, \<open>-\<close>, \<open>*\<close>, \<open>/\<close>, and the conversion of an \<^verbatim>\<open>int\<close> operand) returns
  \<open>rnd\<close> of its exact result, as an IEEE operation returns the exact result rounded to the
  nearest double. Comparisons, negation and \<^verbatim>\<open>abs\<close> are exact, and \<^verbatim>\<open>a // b\<close> is the floor of the
  exact quotient (CPython computes it from the exact remainder). The function \<open>rnd\<close> is a
  parameter of which nothing is assumed; with the identity for \<open>rnd\<close> these are the functions
  above. Overflow to infinity and NaN are not represented.
\<close>

definition truediv_fl :: "(real \<Rightarrow> real) \<Rightarrow> real \<Rightarrow> real \<Rightarrow> error + real" where
  "truediv_fl rnd a b = (if b = 0 then Inl ZeroDivisionError else Inr (rnd (a / b)))"

definition exec_price_fl :: "(real \<Rightarrow> real) \<Rightarrow> real \<Rightarrow> real \<Rightarrow> string \<Rightarrow> real" where
  "exec_price_fl rnd open_px slip side =
     (let s = rnd (slip / 10000)
      in if lower side = ''buy'' then rnd (open_px * rnd (1 + s))
         else rnd (open_px * rnd (1 - s)))"

definition fee_on_notional_fl :: "(real \<Rightarrow> real) \<Rightarrow> real \<Rightarrow> real \<Rightarrow> real" where
  "fee_on_notional_fl rnd notional fee = rnd (\<bar>notional\<bar> * rnd (fee / 10000))"

definition edge_from_closes_fl ::
  "(real \<Rightarrow> real) \<Rightarrow> real \<Rightarrow> real \<Rightarrow> real \<Rightarrow> real \<Rightarrow> error + real" where
  "edge_from_closes_fl rnd open1 prev_close1 open2 prev_close2 =
     and_then (truediv_fl rnd (rnd (open1 - prev_close1)) prev_close1) (\<lambda>r1.
     and_then (truediv_fl rnd (rnd (open2 - prev_close2)) prev_close2) (\<lambda>r2.
       Inr (rnd (rnd (r2 - r1) * 10000))))"

definition overnight_edge_fl ::
  "(real \<Rightarrow> real) \<Rightarrow> row list \<Rightarrow> nat \<Rightarrow> real \<Rightarrow> real \<Rightarrow> error + real" where
  "overnight_edge_fl rnd data i open1 open2 =
     (if i = 0 then Inr 0
      else
        let prev_dt = map date data ! (i - 1)
        in and_then (sget (col1d data Close_Stock1) prev_dt) (\<lambda>prev_close1.
           and_then (sget (col1d data Close_Stock2) prev_dt) (\<lambda>prev_close2.
             edge_from_closes_fl rnd open1 prev_close1 open2 prev_close2)))"

definition sell_leg_fl ::
  "(real \<Rightarrow> real) \<Rightarrow> TradeParams \<Rightarrow> real \<Rightarrow> real \<Rightarrow> engine_state \<Rightarrow> engine_state" where
  "sell_leg_fl rnd params open1 open2 st =
     (if holding1 st then
        let sell_px = exec_price_fl rnd open1 (slippage_bps params) ''sell'';
            notional = rnd (rnd (real_of_int (shares1 st)) * sell_px)
        in st\<lparr>cash := rnd (rnd (cash st + notional)
                              - fee_on_notional_fl rnd notional (fee_bps params)),
              turnover_notional := rnd (turnover_notional st + \<bar>notional\<bar>),
              shares1 := 0\<rparr>
      else
        let sell_px = exec_price_fl rnd open2 (slippage_bps params) ''sell'';
            notional = rnd (rnd (real_of_int (shares2 st)) * sell_px)
        in st\<lparr>cash := rnd (rnd (cash st + notional)
                              - fee_on_notional_fl rnd notional (fee_bps params)),
              turnover_notional := rnd (turnover_notional st + \<bar>notional\<bar>),
              shares2 := 0\<rparr>)"

definition buy_leg_fl ::
  "(real \<Rightarrow> real) \<Rightarrow> TradeParams \<Rightarrow> real \<Rightarrow> real \<Rightarrow> bool \<Rightarrow> engine_state
     \<Rightarrow> error + engine_state" where
  "buy_leg_fl rnd params open1 open2 target_is_2 st =
     (if target_is_2 then
        let buy_px = exec_price_fl rnd open2 (slippage_bps params) ''buy''
        in and_then (floordiv (cash st) buy_px) (\<lambda>new_shares.
             let notional = rnd (rnd (real_of_int new_shares) * buy_px)
             in Inr (st\<lparr>shares2 := shares2 st + new_shares,
                        cash := rnd (rnd (cash st - notional)
                                      - fee_on_notional_fl rnd notional (fee_bps params)),
                        turnover_notional := rnd (turnover_notional st + \<bar>notional\<bar>),
                        holding1 := False\<rparr>))
      else
        let buy_px = exec_price_fl rnd open1 (slippage_bps params) ''buy''
        in and_then (floordiv (cash st) buy_px) (\<lambda>new_shares.
             let notional = rnd (rnd (real_of_int new_shares) * buy_px)
             in Inr (st\<lparr>shares1 := shares1 st + new_shares,
                        cash := rnd (rnd (cash st - notional)
                                      - fee_on_notional_fl rnd notional (fee_bps params)),
                        turnover_notional := rnd (turnover_notional st + \<bar>notional\<bar>),
                        holding1 := True\<rparr>)))"

definition record_hit_fl ::
  "(real \<Rightarrow> real) \<Rightarrow> nat \<Rightarrow> bool \<Rightarrow> real \<Rightarrow> real \<Rightarrow> engine_state \<Rightarrow> error + engine_state" where
  "record_hit_fl rnd i target_is_2 close1 close2 st =
     (if target_is_2 \<and> i > 0 then
        and_then (truediv_fl rnd close2 close1) (\<lambda>q.
          Inr (st\<lparr>switch_hits := switch_hits st @ [q > 1]\<rparr>))
      else if \<not> target_is_2 \<and> i > 0 then
        and_then (truediv_fl rnd close1 close2) (\<lambda>q.
          Inr (st\<lparr>switch_hits := switch_hits st @ [q > 1]\<rparr>))
      else Inr st)"

definition execute_switch_fl ::
  "(real \<Rightarrow> real) \<Rightarrow> TradeParams \<Rightarrow> nat \<Rightarrow> int \<Rightarrow> real \<Rightarrow> real \<Rightarrow> real \<Rightarrow> real \<Rightarrow> real \<Rightarrow> bool
     \<Rightarrow> engine_state \<Rightarrow> error + engine_state" where
  "execute_switch_fl rnd params i d open1 close1 open2 close2 edge_bps target_is_2 st =
     (let st1 = sell_leg_fl rnd params open1 open2 st
      in and_then (buy_leg_fl rnd params open1 open2 target_is_2 st1) (\<lambda>st2.
           let st3 = st2\<lparr>last_switch_date := Some d, switches := switches st2 + 1\<rparr>;
               ev = \<lparr>ev_index = i, ev_date = d, ev_edge_bps = edge_bps,
                     ev_from_asset1 = holding1 st, ev_target_is_2 = target_is_2,
                     ev_buy_px = exec_price_fl rnd (if target_is_2 then open2 else open1)
                                   (slippage_bps params) ''buy'',
                     ev_cash_before_buy = cash st1, ev_cash_after_buy = cash st2,
                     ev_close1 = close1, ev_close2 = close2\<rparr>;
               st4 = st3\<lparr>switch_log := switch_log st3 @ [ev]\<rparr>
           in record_hit_fl rnd i target_is_2 close1 close2 st4))"

text \<open>The value \<^verbatim>\<open>shares1 * close1 + shares2 * close2 + cash\<close>, summed from the left.\<close>

definition holdings_value_fl :: "(real \<Rightarrow> real) \<Rightarrow> int \<Rightarrow> int \<Rightarrow> real \<Rightarrow> real \<Rightarrow> real \<Rightarrow> real" where
  "holdings_value_fl rnd n1 n2 csh close1 close2 =
     rnd (rnd (rnd (rnd (real_of_int n1) * close1) + rnd (rnd (real_of_int n2) * close2)) + csh)"

definition mark_to_close_fl :: "(real \<Rightarrow> real) \<Rightarrow> real \<Rightarrow> real \<Rightarrow> engine_state \<Rightarrow> engine_state" where
  "mark_to_close_fl rnd close1 close2 st =
     (let equity_today = holdings_value_fl rnd (shares1 st) (shares2 st) (cash st) close1 close2
      in st\<lparr>eq_active := eq_active st @ [equity_today],
            pos_flag := pos_flag st @ [if holding1 st then 1 else - 1]\<rparr>)"

definition day_step_fl ::
  "(real \<Rightarrow> real) \<Rightarrow> TradeParams \<Rightarrow> row list \<Rightarrow> nat \<times> int \<Rightarrow> engine_state
     \<Rightarrow> error + engine_state" where
  "day_step_fl rnd params data x st =
     (case x of (i, d) \<Rightarrow>
        and_then (sget (col1d data Open_Stock1) d) (\<lambda>open1.
        and_then (sget (col1d data Close_Stock1) d) (\<lambda>close1.
        and_then (sget (col1d data Open_Stock2) d) (\<lambda>open2.
        and_then (sget (col1d data Close_Stock2) d) (\<lambda>close2.
        and_then (overnight_edge_fl rnd data i open1 open2) (\<lambda>edge_bps.
          case decide params i d (holding1 st) (last_switch_date st) edge_bps of
            (do_switch, target_is_2) \<Rightarrow>
              and_then
                (if do_switch
                 then execute_switch_fl rnd params i d open1 close1 open2 close2 edge_bps
                        target_is_2 st
                 else Inr st)
                (\<lambda>st'. Inr (mark_to_close_fl rnd close1 close2 st'))))))))"

fun active_loop_fl ::
  "(real \<Rightarrow> real) \<Rightarrow> TradeParams \<Rightarrow> row list \<Rightarrow> (nat \<times> int) list \<Rightarrow> engine_state
     \<Rightarrow> error + engine_state" where
  "active_loop_fl rnd params data [] st = Inr st"
| "active_loop_fl rnd params data (x # xs) st =
     and_then (day_step_fl rnd params data x st) (active_loop_fl rnd params data xs)"

definition engine_run_fl ::
  "(real \<Rightarrow> real) \<Rightarrow> row list \<Rightarrow> int \<Rightarrow> int \<Rightarrow> real \<Rightarrow> TradeParams \<Rightarrow> error + engine_state" where
  "engine_run_fl rnd data shares1_init shares2_init cash_init params =
     active_loop_fl rnd params data (enumerate 0 (map date data))
       (init_state shares1_init shares2_init cash_init)"

definition passive_equity_series_fl ::
  "(real \<Rightarrow> real) \<Rightarrow> row list \<Rightarrow> int \<Rightarrow> int \<Rightarrow> real \<Rightarrow> real option list" where
  "passive_equity_series_fl rnd data shares1_init shares2_init cash_init =
     (let c1 = col1d data Close_Stock1;
          c2 = col1d data Close_Stock2;
          pes = map (\<lambda>((d, a), (_, b)).
                       (d, holdings_value_fl rnd shares1_init shares2_init cash_init a b))
                  (zip c1 c2);
          pes' = (if distinct (map fst pes) then pes else keep_first fst [] pes)
      in map (map_of pes') (map date data))"

definition hit_rate_fl :: "(real \<Rightarrow> real) \<Rightarrow> bool list \<Rightarrow> real option" where
  "hit_rate_fl rnd hits =
     (if hits = [] then None
      else Some (rnd (real (length (filter (\<lambda>h. h) hits)) / real (length hits))))"

definition backtest_switching_fl ::
  "(real \<Rightarrow> real) \<Rightarrow> row list \<Rightarrow> int \<Rightarrow> int \<Rightarrow> real \<Rightarrow> TradeParams
     \<Rightarrow> error + (results \<times> stats)" where
  "backtest_switching_fl rnd data shares1_init shares2_init cash_init params =
     (let passive = passive_equity_series_fl rnd data shares1_init shares2_init cash_init
      in and_then (engine_run_fl rnd data shares1_init shares2_init cash_init params) (\<lambda>st.
           Inr (\<lparr>Index = map date data, Equity_Active = eq_active st,
                  Equity_Passive = passive, PositionFlag = pos_flag st\<rparr>,
                \<lparr>Switches = switches st, Turnover_Notional = turnover_notional st,
                  HitRate = hit_rate_fl rnd (switch_hits st)\<rparr>)))"

section \<open>Loading and aligning: \<^verbatim>\<open>fetch_data\<close>, \<^verbatim>\<open>align_two\<close>, \<^verbatim>\<open>main\<close>\<close>

text \<open>
  A row of a per-asset table: the date and the two columns that \<^verbatim>\<open>fetch_data\<close> keeps, a
  missing value (NaN) being \<open>None\<close>.
\<close>

record raw_row =
  raw_date :: int
  raw_Open :: "real option"
  raw_Close :: "real option"

text \<open>
  \<^verbatim>\<open>fetch_data\<close>, with the frame that the download returned as its argument: an empty frame
  raises \<^verbatim>\<open>ValueError\<close>, any other is sorted by date. The sort of the model keeps rows of equal
  date in their order; pandas does not promise an order among them.
\<close>

definition fetch_data :: "raw_row list \<Rightarrow> error + raw_row list" where
  "fetch_data df = (if df = [] then Inl ValueError else Inr (sort_key raw_date df))"

record joined_row =
  j_date :: int
  j_Open1 :: "real option"
  j_Close1 :: "real option"
  j_Open2 :: "real option"
  j_Close2 :: "real option"

text \<open>\<^verbatim>\<open>left.join(right, how="inner")\<close>: every pair of rows that carry the same date.\<close>

definition inner_join :: "raw_row list \<Rightarrow> raw_row list \<Rightarrow> joined_row list" where
  "inner_join left right =
     concat (map (\<lambda>l. map (\<lambda>r. \<lparr>j_date = raw_date l, j_Open1 = raw_Open l, j_Close1 = raw_Close l,
                                  j_Open2 = raw_Open r, j_Close2 = raw_Close r\<rparr>)
                          (filter (\<lambda>r. raw_date r = raw_date l) right)) left)"

definition dropna :: "joined_row list \<Rightarrow> row list" where
  "dropna frame =
     concat (map (\<lambda>j. case (j_Open1 j, j_Close1 j, j_Open2 j, j_Close2 j) of
                         (Some o1, Some c1, Some o2, Some c2) \<Rightarrow>
                           [\<lparr>date = j_date j, Open_Stock1 = o1, Close_Stock1 = c1,
                             Open_Stock2 = o2, Close_Stock2 = c2\<rparr>]
                       | _ \<Rightarrow> []) frame)"

definition align_two :: "raw_row list \<Rightarrow> raw_row list \<Rightarrow> row list" where
  "align_two left right =
     (let combined = dropna (sort_key j_date (inner_join left right))
      in if distinct (map date combined) then combined else keep_first date [] combined)"

text \<open>The data path of \<^verbatim>\<open>main\<close>: fetch both tables, align them, run the backtest.\<close>

definition main_backtest ::
  "raw_row list \<Rightarrow> raw_row list \<Rightarrow> int \<Rightarrow> int \<Rightarrow> real \<Rightarrow> TradeParams \<Rightarrow> error + (results \<times> stats)" where
  "main_backtest download1 download2 shares1_init shares2_init cash_init params =
     and_then (fetch_data download1) (\<lambda>d1.
     and_then (fetch_data download2) (\<lambda>d2.
       backtest_switching (align_two d1 d2) shares1_init shares2_init cash_init params))"

section \<open>The point-in-time signal of \<^verbatim>\<open>signal2.py\<close>\<close>

datatype action = Switch_to_B | Hold_A | Switch_to_A | Hold_B

text \<open>
  The decision of \<^verbatim>\<open>main\<close> in \<^verbatim>\<open>signal2.py\<close>, from the two previous closes, the two opens, the
  (upper-cased) holding and the threshold: any holding other than "A" is treated as B.
\<close>

definition signal2_decision :: "real \<Rightarrow> real \<Rightarrow> real \<Rightarrow> real \<Rightarrow> string \<Rightarrow> real \<Rightarrow> error + action" where
  "signal2_decision oA cA oB cB holding delta =
     and_then (truediv (oA - cA) cA) (\<lambda>rA.
     and_then (truediv (oB - cB) cB) (\<lambda>rB.
       let edge_bps = (rB - rA) * 10000
       in Inr (if holding = ''A'' then
                 (if edge_bps > delta then Switch_to_B else Hold_A)
               else
                 (if - edge_bps > delta then Switch_to_A else Hold_B))))"

text \<open>An action of the signal, read as the engine's pair \<^verbatim>\<open>(do_switch, target_is_2)\<close>.\<close>

fun decision_of_action :: "action \<Rightarrow> bool \<times> bool" where
  "decision_of_action Switch_to_B = (True, True)"
| "decision_of_action Switch_to_A = (True, False)"
| "decision_of_action Hold_A = (False, False)"
| "decision_of_action Hold_B = (False, False)"

section \<open>Notions used to state the properties\<close>

text \<open>
  The edge that the loop computes at row \<open>i\<close> of a table against row \<open>i - 1\<close>, by position,
  with the rounding of every operation.
\<close>

definition table_edge_fl :: "(real \<Rightarrow> real) \<Rightarrow> row list \<Rightarrow> nat \<Rightarrow> real" where
  "table_edge_fl rnd data i =
     (let r1 = rnd (rnd (Open_Stock1 (data ! i) - Close_Stock1 (data ! (i - 1)))
                     / Close_Stock1 (data ! (i - 1)));
          r2 = rnd (rnd (Open_Stock2 (data ! i) - Close_Stock2 (data ! (i - 1)))
                     / Close_Stock2 (data ! (i - 1)))
      in rnd (rnd (r2 - r1) * 10000))"


text \<open>The same-day observation attached to a switch.\<close>

definition hit_observation :: "switch_event \<Rightarrow> bool" where
  "hit_observation ev =
     (if ev_target_is_2 ev then ev_close2 ev / ev_close1 ev > 1
      else ev_close1 ev / ev_close2 ev > 1)"

text \<open>
  A three-day table on which the engine switches to asset 2 on the second day and back to
  asset 1 on the third, and the parameters it is run with.
\<close>

definition bar :: "int \<Rightarrow> real \<Rightarrow> real \<Rightarrow> real \<Rightarrow> real \<Rightarrow> row" where
  "bar k o1 c1 o2 c2 =
     \<lparr>date = k * day_ns, Open_Stock1 = o1, Close_Stock1 = c1, Open_Stock2 = o2, Close_Stock2 = c2\<rparr>"

definition demo_table :: "row list" where
  "demo_table = [bar 0 10 10 10 10, bar 1 10 10 11 11, bar 2 11 10 11 11]"

definition demo_params :: "real \<Rightarrow> TradeParams" where
  "demo_params fee =
     \<lparr>hysteresis_bps = 5, cooldown_days = 1, fee_bps = fee, slippage_bps = 0\<rparr>"

text \<open>The state in which the loop leaves that table, without fees.\<close>

definition demo_final :: engine_state where
  "demo_final =
     \<lparr>shares1 = 90, shares2 = 0, cash = 10, holding1 = True,
      last_switch_date = Some 172800000000000,
      eq_active = [1000, 1000, 910], pos_flag = [1, - 1, 1], switches = 2,
      turnover_notional = 3970, switch_hits = [True, False],
      switch_log =
        [\<lparr>ev_index = 1, ev_date = 86400000000000, ev_edge_bps = 1000,
            ev_from_asset1 = True, ev_target_is_2 = True, ev_buy_px = 11,
            ev_cash_before_buy = 1000, ev_cash_after_buy = 10,
            ev_close1 = 10, ev_close2 = 11\<rparr>,
         \<lparr>ev_index = 2, ev_date = 172800000000000, ev_edge_bps = - 1000,
            ev_from_asset1 = False, ev_target_is_2 = False, ev_buy_px = 11,
            ev_cash_before_buy = 1000, ev_cash_after_buy = 10,
            ev_close1 = 10, ev_close2 = 11\<rparr>]\<rparr>"

text \<open>The state in which the loop leaves it with a fee of 100 basis points per leg.\<close>

definition demo_fee_final :: engine_state where
  "demo_fee_final =
     \<lparr>shares1 = 88, shares2 = 0, cash = - (187 / 25), holding1 = True,
      last_switch_date = Some 172800000000000,
      eq_active = [1000, 9801 / 10, 21813 / 25], pos_flag = [1, - 1, 1], switches = 2,
      turnover_notional = 3948, switch_hits = [True, False],
      switch_log =
        [\<lparr>ev_index = 1, ev_date = 86400000000000, ev_edge_bps = 1000,
            ev_from_asset1 = True, ev_target_is_2 = True, ev_buy_px = 11,
            ev_cash_before_buy = 990, ev_cash_after_buy = - (99 / 10),
            ev_close1 = 10, ev_close2 = 11\<rparr>,
         \<lparr>ev_index = 2, ev_date = 172800000000000, ev_edge_bps = - 1000,
            ev_from_asset1 = False, ev_target_is_2 = False, ev_buy_px = 11,
            ev_cash_before_buy = 4851 / 5, ev_cash_after_buy = - (187 / 25),
            ev_close1 = 10, ev_close2 = 11\<rparr>]\<rparr>"

text \<open>Two-day tables whose first close of asset 1 is zero, and negative.\<close>

definition zero_close_table :: "row list" where
  "zero_close_table = [bar 0 10 0 10 10, bar 1 10 10 10 10]"

definition negative_close_table :: "row list" where
  "negative_close_table = [bar 0 10 (- 10) 10 10, bar 1 10 10 10 10]"

section \<open>The rounding of doubles\<close>

text \<open>
  Rounding to the nearest double, ties to even, for a value in the normal range of doubles:
  \<open>binade\<close> searches the exponent \<open>e\<close> with \<open>2^e \<le> |x| < 2^(e+1)\<close> from 0, and the value is
  rounded to a multiple of \<open>2^(e-52)\<close>. Subnormal values and overflow are not represented.
\<close>

definition round_even :: "real \<Rightarrow> int" where
  "round_even y =
     (let f = \<lfloor>y\<rfloor>; d = y - real_of_int f
      in if d < 1 / 2 then f else if 1 / 2 < d then f + 1 else if even f then f else f + 1)"

fun binade :: "nat \<Rightarrow> real \<Rightarrow> int \<Rightarrow> int" where
  "binade 0 x e = e"
| "binade (Suc n) x e =
     (if x < 2 powi e then binade n x (e - 1)
      else if 2 powi (e + 1) \<le> x then binade n x (e + 1)
      else e)"

definition binary64 :: "real \<Rightarrow> real" where
  "binary64 x =
     (if x = 0 then 0
      else let u = 2 powi (binade 2200 \<bar>x\<bar> 0 - 52)
           in real_of_int (round_even (x / u)) * u)"

text \<open>
  A two-day table whose second edge is 50 basis points in exact arithmetic, and parameters
  with that threshold.
\<close>

definition threshold_table :: "row list" where
  "threshold_table = [bar 0 100 100 200 200, bar 1 98 98 197 197]"

definition threshold_params :: TradeParams where
  "threshold_params = \<lparr>hysteresis_bps = 50, cooldown_days = 0, fee_bps = 0, slippage_bps = 0\<rparr>"

section \<open>The steps of the loop\<close>

lemma and_then_Inl [simp]: "and_then (Inl e) f = Inl e"
  by (simp add: and_then_def)

lemma and_then_Inr [simp]: "and_then (Inr v) f = f v"
  by (simp add: and_then_def)

lemma and_then_eq_Inr: "and_then m f = Inr y \<longleftrightarrow> (\<exists>v. m = Inr v \<and> f v = Inr y)"
  by (cases m) simp_all

lemma sell_leg_keeps:
  "switch_log (sell_leg params open1 open2 st) = switch_log st"
  "switches (sell_leg params open1 open2 st) = switches st"
  "switch_hits (sell_leg params open1 open2 st) = switch_hits st"
  "last_switch_date (sell_leg params open1 open2 st) = last_switch_date st"
  "eq_active (sell_leg params open1 open2 st) = eq_active st"
  "pos_flag (sell_leg params open1 open2 st) = pos_flag st"
  "holding1 (sell_leg params open1 open2 st) = holding1 st"
  by (simp_all add: sell_leg_def Let_def)

lemma buy_leg_keeps:
  assumes "buy_leg params open1 open2 t st = Inr st'"
  shows "switch_log st' = switch_log st" "switches st' = switches st"
    "switch_hits st' = switch_hits st" "last_switch_date st' = last_switch_date st"
    "eq_active st' = eq_active st" "pos_flag st' = pos_flag st"
    "holding1 st' = (\<not> t)"
  using assms
  by (auto simp: buy_leg_def Let_def floordiv_def split: if_splits)

lemma buy_leg_cash:
  assumes "buy_leg params open1 open2 t st = Inr st'"
  defines "px \<equiv> exec_price (if t then open2 else open1) (slippage_bps params) ''buy''"
  shows "px \<noteq> 0"
    and "cash st' = cash st - real_of_int \<lfloor>cash st / px\<rfloor> * px
            - fee_on_notional (real_of_int \<lfloor>cash st / px\<rfloor> * px) (fee_bps params)"
  using assms
  by (auto simp: buy_leg_def Let_def floordiv_def split: if_splits)

lemma record_hit_Inr:
  assumes "record_hit i t close1 close2 st = Inr st'" and "0 < i"
  shows "st' = st\<lparr>switch_hits := switch_hits st
                    @ [if t then close2 / close1 > 1 else close1 / close2 > 1]\<rparr>"
    and "(if t then close1 else close2) \<noteq> 0"
  using assms
  by (auto simp: record_hit_def truediv_def split: if_splits)

lemma execute_switch_Inr:
  assumes "execute_switch params i d open1 close1 open2 close2 edge_bps t st = Inr st'"
    and "0 < i"
  defines "px \<equiv> exec_price (if t then open2 else open1) (slippage_bps params) ''buy''"
  defines "before \<equiv> cash (sell_leg params open1 open2 st)"
  defines "ev \<equiv> \<lparr>ev_index = i, ev_date = d, ev_edge_bps = edge_bps,
                     ev_from_asset1 = holding1 st, ev_target_is_2 = t,
                     ev_buy_px = px,
                     ev_cash_before_buy = before, ev_cash_after_buy = cash st',
                     ev_close1 = close1, ev_close2 = close2\<rparr>"
  shows "switch_log st' = switch_log st @ [ev]"
    and "switches st' = switches st + 1"
    and "last_switch_date st' = Some d"
    and "switch_hits st' = switch_hits st @ [if t then close2 / close1 > 1 else close1 / close2 > 1]"
    and "eq_active st' = eq_active st" and "pos_flag st' = pos_flag st"
    and "holding1 st' = (\<not> t)"
    and "px \<noteq> 0"
    and "cash st' = before - real_of_int \<lfloor>before / px\<rfloor> * px
            - fee_on_notional (real_of_int \<lfloor>before / px\<rfloor> * px) (fee_bps params)"
proof -
  from assms(1) obtain st2 where
    b: "buy_leg params open1 open2 t (sell_leg params open1 open2 st) = Inr st2" and
    r: "record_hit i t close1 close2
          (st2\<lparr>last_switch_date := Some d, switches := switches st2 + 1,
               switch_log := switch_log st2 @
                 [\<lparr>ev_index = i, ev_date = d, ev_edge_bps = edge_bps,
                     ev_from_asset1 = holding1 st, ev_target_is_2 = t,
                     ev_buy_px = px,
                     ev_cash_before_buy = before, ev_cash_after_buy = cash st2,
                     ev_close1 = close1, ev_close2 = close2\<rparr>]\<rparr>) = Inr st'"
    by (auto simp: execute_switch_def Let_def and_then_eq_Inr px_def before_def)
  note k = buy_leg_keeps[OF b] sell_leg_keeps
  note c = buy_leg_cash[OF b]
  note h = record_hit_Inr[OF r \<open>0 < i\<close>]
  have cs: "cash st' = cash st2" by (subst h(1)) simp
  show "switch_log st' = switch_log st @ [ev]"
    by (subst h(1)) (simp add: k ev_def cs)
  show "switches st' = switches st + 1" by (subst h(1)) (simp add: k)
  show "last_switch_date st' = Some d" by (subst h(1)) simp
  show "switch_hits st' = switch_hits st @ [if t then close2 / close1 > 1 else close1 / close2 > 1]"
    by (subst h(1)) (simp add: k)
  show "eq_active st' = eq_active st" by (subst h(1)) (simp add: k)
  show "pos_flag st' = pos_flag st" by (subst h(1)) (simp add: k)
  show "holding1 st' = (\<not> t)" by (subst h(1)) (simp add: k)
  show "px \<noteq> 0" using c(1) by (simp add: px_def)
  show "cash st' = before - real_of_int \<lfloor>before / px\<rfloor> * px
            - fee_on_notional (real_of_int \<lfloor>before / px\<rfloor> * px) (fee_bps params)"
    using c(2) by (simp add: cs px_def before_def)
qed


lemma decide_True:
  assumes "decide params i d h l e = (True, t)"
  shows "0 < i"
    and "l = None \<or> (\<exists>l'. l = Some l' \<and> cooldown_days params \<le> days (d - l'))"
    and "h \<Longrightarrow> t \<and> hysteresis_bps params < e"
    and "\<not> h \<Longrightarrow> \<not> t \<and> e < - hysteresis_bps params"
  using assms
  by (auto simp: decide_def Let_def split: if_splits option.splits)

lemma day_step_Inr:
  assumes "day_step params data (i, d) st = Inr st'"
  obtains open1 close1 open2 close2 edge_bps st2 where
    "sget (col1d data Open_Stock1) d = Inr open1"
    "sget (col1d data Close_Stock1) d = Inr close1"
    "sget (col1d data Open_Stock2) d = Inr open2"
    "sget (col1d data Close_Stock2) d = Inr close2"
    "overnight_edge data i open1 open2 = Inr edge_bps"
    "st' = mark_to_close close1 close2 st2"
    "(\<not> fst (decide params i d (holding1 st) (last_switch_date st) edge_bps) \<and> st2 = st)
     \<or> (\<exists>t. decide params i d (holding1 st) (last_switch_date st) edge_bps = (True, t)
            \<and> execute_switch params i d open1 close1 open2 close2 edge_bps t st = Inr st2)"
proof -
  from assms obtain open1 close1 open2 close2 edge_bps where
    g: "sget (col1d data Open_Stock1) d = Inr open1"
       "sget (col1d data Close_Stock1) d = Inr close1"
       "sget (col1d data Open_Stock2) d = Inr open2"
       "sget (col1d data Close_Stock2) d = Inr close2"
       "overnight_edge data i open1 open2 = Inr edge_bps" and
    r: "(case decide params i d (holding1 st) (last_switch_date st) edge_bps of
            (do_switch, target_is_2) \<Rightarrow>
              and_then
                (if do_switch
                 then execute_switch params i d open1 close1 open2 close2 edge_bps target_is_2 st
                 else Inr st)
                (\<lambda>st'. Inr (mark_to_close close1 close2 st'))) = Inr st'"
    unfolding day_step_def prod.case and_then_eq_Inr by blast
  obtain b t where dc: "decide params i d (holding1 st) (last_switch_date st) edge_bps = (b, t)"
    by (cases "decide params i d (holding1 st) (last_switch_date st) edge_bps")
  show thesis
  proof (cases b)
    case True
    with r dc obtain st2 where
      "execute_switch params i d open1 close1 open2 close2 edge_bps t st = Inr st2"
      "st' = mark_to_close close1 close2 st2"
      by (auto simp: and_then_eq_Inr)
    with g dc True show thesis by (intro that[of open1 close1 open2 close2 edge_bps st2]) auto
  next
    case False
    with r dc have "st' = mark_to_close close1 close2 st" by simp
    with g dc False show thesis by (intro that[of open1 close1 open2 close2 edge_bps st]) auto
  qed
qed

lemma mark_to_close_keeps:
  "switch_log (mark_to_close c1 c2 st) = switch_log st"
  "switches (mark_to_close c1 c2 st) = switches st"
  "switch_hits (mark_to_close c1 c2 st) = switch_hits st"
  "last_switch_date (mark_to_close c1 c2 st) = last_switch_date st"
  "holding1 (mark_to_close c1 c2 st) = holding1 st"
  "cash (mark_to_close c1 c2 st) = cash st"
  "shares1 (mark_to_close c1 c2 st) = shares1 st"
  "shares2 (mark_to_close c1 c2 st) = shares2 st"
  "pos_flag (mark_to_close c1 c2 st) = pos_flag st @ [if holding1 st then 1 else - 1]"
  by (simp_all add: mark_to_close_def Let_def)

lemma active_loop_invariant:
  assumes "active_loop params data xs st = Inr st'"
    and "I st"
    and "\<And>x s s'. I s \<Longrightarrow> day_step params data x s = Inr s' \<Longrightarrow> I s'"
  shows "I st'"
  using assms(1,2)
proof (induction xs arbitrary: st)
  case Nil
  then show ?case by simp
next
  case (Cons x xs)
  from Cons.prems(1) obtain s where
    s: "day_step params data x st = Inr s" and r: "active_loop params data xs s = Inr st'"
    by (auto simp: and_then_eq_Inr)
  from assms(3)[OF Cons.prems(2) s] have "I s" .
  from Cons.IH[OF r this] show ?case .
qed

text \<open>What one day does to the log: nothing, or one more event with the data of that day.\<close>

lemma day_step_log:
  assumes "day_step params data (i, d) st = Inr st'"
  obtains (hold) "switch_log st' = switch_log st" "switches st' = switches st"
      "switch_hits st' = switch_hits st" "last_switch_date st' = last_switch_date st"
  | (switch) ev where "switch_log st' = switch_log st @ [ev]"
      "switches st' = switches st + 1"
      "switch_hits st' = switch_hits st @ [hit_observation ev]"
      "last_switch_date st' = Some d"
      "ev_date ev = d" "ev_index ev = i" "0 < i"
      "ev_from_asset1 ev = holding1 st"
      "sget (col1d data Close_Stock1) d = Inr (ev_close1 ev)"
      "sget (col1d data Close_Stock2) d = Inr (ev_close2 ev)"
      "decide params i d (holding1 st) (last_switch_date st) (ev_edge_bps ev)
         = (True, ev_target_is_2 ev)"
proof -
  from assms obtain open1 close1 open2 close2 edge_bps st2 where
    g: "sget (col1d data Close_Stock1) d = Inr close1"
       "sget (col1d data Close_Stock2) d = Inr close2" and
    m: "st' = mark_to_close close1 close2 st2" and
    c: "(\<not> fst (decide params i d (holding1 st) (last_switch_date st) edge_bps) \<and> st2 = st)
     \<or> (\<exists>t. decide params i d (holding1 st) (last_switch_date st) edge_bps = (True, t)
            \<and> execute_switch params i d open1 close1 open2 close2 edge_bps t st = Inr st2)"
    by (rule day_step_Inr)
  from c show thesis
  proof
    assume "\<not> fst (decide params i d (holding1 st) (last_switch_date st) edge_bps) \<and> st2 = st"
    then show thesis by (intro hold) (simp_all add: m mark_to_close_keeps)
  next
    assume "\<exists>t. decide params i d (holding1 st) (last_switch_date st) edge_bps = (True, t)
            \<and> execute_switch params i d open1 close1 open2 close2 edge_bps t st = Inr st2"
    then obtain t where
      dt: "decide params i d (holding1 st) (last_switch_date st) edge_bps = (True, t)" and
      ex: "execute_switch params i d open1 close1 open2 close2 edge_bps t st = Inr st2"
      by blast
    have i: "0 < i" using decide_True(1)[OF dt] .
    note e = execute_switch_Inr[OF ex i]
    show thesis
    proof (rule switch)
      show "switch_log st' = switch_log st @ [\<lparr>ev_index = i, ev_date = d, ev_edge_bps = edge_bps,
                     ev_from_asset1 = holding1 st, ev_target_is_2 = t,
                     ev_buy_px = exec_price (if t then open2 else open1) (slippage_bps params) ''buy'',
                     ev_cash_before_buy = cash (sell_leg params open1 open2 st),
                     ev_cash_after_buy = cash st2,
                     ev_close1 = close1, ev_close2 = close2\<rparr>]"
        by (simp add: m mark_to_close_keeps e(1))
      show "switches st' = switches st + 1" by (simp add: m mark_to_close_keeps e(2))
      show "last_switch_date st' = Some d" by (simp add: m mark_to_close_keeps e(3))
      show "0 < i" by (rule i)
    qed (simp_all add: m mark_to_close_keeps e(4) hit_observation_def g dt)
  qed
qed

lemma engine_run_invariant:
  assumes "engine_run data s1 s2 c params = Inr st"
    and "I (init_state s1 s2 c)"
    and "\<And>i d s s'. I s \<Longrightarrow> day_step params data (i, d) s = Inr s' \<Longrightarrow> I s'"
  shows "I st"
proof -
  have "\<And>x s s'. I s \<Longrightarrow> day_step params data x s = Inr s' \<Longrightarrow> I s'"
    using assms(3) by (metis surj_pair)
  with assms(1,2) show ?thesis
    unfolding engine_run_def by (rule active_loop_invariant)
qed

lemmas engine_defs =
  engine_run_def init_state_def day_step_def overnight_edge_def edge_from_closes_def
  decide_def execute_switch_def sell_leg_def buy_leg_def record_hit_def mark_to_close_def
  sget_def col1d_def truediv_def floordiv_def and_then_def days_def day_ns_def
  exec_price_def fee_on_notional_def lower_def bar_def enumerate_eq_zip

lemma demo_run: "engine_run demo_table 100 0 0 (demo_params 0) = Inr demo_final"
  by (simp add: engine_defs demo_table_def demo_params_def demo_final_def)

lemma sget_in_set:
  assumes "sget (col1d data col) d = Inr v"
  shows "\<exists>r\<in>set data. date r = d \<and> v = col r"
proof -
  from assms have "map_of (map (\<lambda>r. (date r, col r)) data) d = Some v"
    by (simp add: sget_def col1d_def split: option.splits)
  then have "(d, v) \<in> set (map (\<lambda>r. (date r, col r)) data)"
    by (rule map_of_SomeD)
  then show ?thesis by auto
qed

lemma day_step_new_event:
  assumes "day_step params data (i, d) st = Inr st'"
    and "switch_log st' = switch_log st @ [ev]"
  shows "ev_buy_px ev \<noteq> 0"
    and "ev_cash_after_buy ev =
           ev_cash_before_buy ev
           - real_of_int \<lfloor>ev_cash_before_buy ev / ev_buy_px ev\<rfloor> * ev_buy_px ev
           - fee_on_notional
               (real_of_int \<lfloor>ev_cash_before_buy ev / ev_buy_px ev\<rfloor> * ev_buy_px ev)
               (fee_bps params)"
    and "\<exists>r\<in>set data. ev_buy_px ev =
           exec_price (if ev_target_is_2 ev then Open_Stock2 r else Open_Stock1 r)
             (slippage_bps params) ''buy''"
proof -
  from assms(1) obtain open1 close1 open2 close2 edge_bps st2 where
    o: "sget (col1d data Open_Stock1) d = Inr open1"
       "sget (col1d data Open_Stock2) d = Inr open2" and
    m: "st' = mark_to_close close1 close2 st2" and
    c: "(\<not> fst (decide params i d (holding1 st) (last_switch_date st) edge_bps) \<and> st2 = st)
     \<or> (\<exists>t. decide params i d (holding1 st) (last_switch_date st) edge_bps = (True, t)
            \<and> execute_switch params i d open1 close1 open2 close2 edge_bps t st = Inr st2)"
    by (rule day_step_Inr)
  from assms(2) have "switch_log st2 \<noteq> switch_log st"
    by (simp add: m mark_to_close_keeps)
  with c obtain t where
    dt: "decide params i d (holding1 st) (last_switch_date st) edge_bps = (True, t)" and
    ex: "execute_switch params i d open1 close1 open2 close2 edge_bps t st = Inr st2"
    by blast
  have i: "0 < i" using decide_True(1)[OF dt] .
  note e = execute_switch_Inr[OF ex i]
  from assms(2) e(1) have ev:
    "ev = \<lparr>ev_index = i, ev_date = d, ev_edge_bps = edge_bps,
            ev_from_asset1 = holding1 st, ev_target_is_2 = t,
            ev_buy_px = exec_price (if t then open2 else open1) (slippage_bps params) ''buy'',
            ev_cash_before_buy = cash (sell_leg params open1 open2 st),
            ev_cash_after_buy = cash st2,
            ev_close1 = close1, ev_close2 = close2\<rparr>"
    by (simp add: m mark_to_close_keeps)
  show "ev_buy_px ev \<noteq> 0" using e(8) by (simp add: ev)
  show "ev_cash_after_buy ev =
           ev_cash_before_buy ev
           - real_of_int \<lfloor>ev_cash_before_buy ev / ev_buy_px ev\<rfloor> * ev_buy_px ev
           - fee_on_notional
               (real_of_int \<lfloor>ev_cash_before_buy ev / ev_buy_px ev\<rfloor> * ev_buy_px ev)
               (fee_bps params)"
    using e(9) by (simp add: ev)
  from sget_in_set[OF o(1)] sget_in_set[OF o(2)]
  show "\<exists>r\<in>set data. ev_buy_px ev =
           exec_price (if ev_target_is_2 ev then Open_Stock2 r else Open_Stock1 r)
             (slippage_bps params) ''buy''"
    by (cases t) (auto simp: ev)
qed

lemma floor_residual:
  fixes c p :: real
  assumes "0 < p"
  shows "0 \<le> c - real_of_int \<lfloor>c / p\<rfloor> * p" and "c - real_of_int \<lfloor>c / p\<rfloor> * p < p"
proof -
  have "real_of_int \<lfloor>c / p\<rfloor> * p \<le> c"
    by (subst pos_le_divide_eq[OF assms, symmetric]) (rule of_int_floor_le)
  then show "0 \<le> c - real_of_int \<lfloor>c / p\<rfloor> * p" by simp
  have "c < (real_of_int \<lfloor>c / p\<rfloor> + 1) * p"
    by (subst pos_divide_less_eq[OF assms, symmetric]) linarith
  then show "c - real_of_int \<lfloor>c / p\<rfloor> * p < p" by (simp add: algebra_simps)
qed

lemma demo_fee_run: "engine_run demo_table 100 0 0 (demo_params 100) = Inr demo_fee_final"
  by (simp add: engine_defs demo_table_def demo_params_def demo_fee_final_def)

section \<open>Tables with unique dates\<close>

lemma sget_hd: "sget (col1d (r # rs) col) (date r) = Inr (col r)"
  by (simp add: sget_def col1d_def)

lemma sget_nth:
  assumes "distinct (map date data)" and "i < length data"
  shows "sget (col1d data col) (date (data ! i)) = Inr (col (data ! i))"
proof -
  have "distinct (map fst (map (\<lambda>r. (date r, col r)) data))"
    using assms(1) by (simp add: o_def)
  moreover have "(date (data ! i), col (data ! i)) \<in> set (map (\<lambda>r. (date r, col r)) data)"
    using assms(2) by auto
  ultimately have "map_of (map (\<lambda>r. (date r, col r)) data) (date (data ! i)) = Some (col (data ! i))"
    by (rule map_of_is_SomeI)
  then show ?thesis by (simp add: sget_def col1d_def)
qed

lemma day_step_appends:
  assumes "day_step params data (i, d) st = Inr st'"
  shows "\<exists>f. pos_flag st' = pos_flag st @ [f]"
proof -
  from assms obtain open1 close1 open2 close2 edge_bps st2 where
    m: "st' = mark_to_close close1 close2 st2" and
    c: "(\<not> fst (decide params i d (holding1 st) (last_switch_date st) edge_bps) \<and> st2 = st)
     \<or> (\<exists>t. decide params i d (holding1 st) (last_switch_date st) edge_bps = (True, t)
            \<and> execute_switch params i d open1 close1 open2 close2 edge_bps t st = Inr st2)"
    by (rule day_step_Inr)
  from c have "pos_flag st2 = pos_flag st"
  proof
    assume "\<not> fst (decide params i d (holding1 st) (last_switch_date st) edge_bps) \<and> st2 = st"
    then show ?thesis by simp
  next
    assume "\<exists>t. decide params i d (holding1 st) (last_switch_date st) edge_bps = (True, t)
            \<and> execute_switch params i d open1 close1 open2 close2 edge_bps t st = Inr st2"
    then obtain t where
      dt: "decide params i d (holding1 st) (last_switch_date st) edge_bps = (True, t)" and
      ex: "execute_switch params i d open1 close1 open2 close2 edge_bps t st = Inr st2"
      by blast
    from execute_switch_Inr(6)[OF ex decide_True(1)[OF dt]] show ?thesis .
  qed
  then show ?thesis by (simp add: m mark_to_close_keeps)
qed

lemma first_day_step:
  "day_step params (r # rs) (0, date r) (init_state s1 s2 c)
     = Inr (mark_to_close (Close_Stock1 r) (Close_Stock2 r) (init_state s1 s2 c))"
  by (simp add: day_step_def sget_hd overnight_edge_def decide_def)


section \<open>The loop with rounded arithmetic\<close>

lemma exec_price_fl_id: "exec_price_fl (\<lambda>x. x) = exec_price"
  by (intro ext) (simp only: exec_price_fl_def exec_price_def)

lemma fee_on_notional_fl_id: "fee_on_notional_fl (\<lambda>x. x) = fee_on_notional"
  by (intro ext) (simp only: fee_on_notional_fl_def fee_on_notional_def)

lemma truediv_fl_id: "truediv_fl (\<lambda>x. x) = truediv"
  by (intro ext) (simp only: truediv_fl_def truediv_def)

lemma edge_from_closes_fl_id: "edge_from_closes_fl (\<lambda>x. x) = edge_from_closes"
  by (intro ext) (simp only: edge_from_closes_fl_def edge_from_closes_def truediv_fl_id)

lemma overnight_edge_fl_id: "overnight_edge_fl (\<lambda>x. x) = overnight_edge"
  by (intro ext) (simp only: overnight_edge_fl_def overnight_edge_def edge_from_closes_fl_id)

lemma sell_leg_fl_id: "sell_leg_fl (\<lambda>x. x) = sell_leg"
  by (intro ext)
     (simp only: sell_leg_fl_def sell_leg_def exec_price_fl_id fee_on_notional_fl_id)

lemma buy_leg_fl_id: "buy_leg_fl (\<lambda>x. x) = buy_leg"
  by (intro ext)
     (simp only: buy_leg_fl_def buy_leg_def exec_price_fl_id fee_on_notional_fl_id)

lemma record_hit_fl_id: "record_hit_fl (\<lambda>x. x) = record_hit"
  by (intro ext) (simp only: record_hit_fl_def record_hit_def truediv_fl_id)

lemma execute_switch_fl_id: "execute_switch_fl (\<lambda>x. x) = execute_switch"
  by (intro ext)
     (simp only: execute_switch_fl_def execute_switch_def sell_leg_fl_id buy_leg_fl_id
        record_hit_fl_id exec_price_fl_id)

lemma mark_to_close_fl_id: "mark_to_close_fl (\<lambda>x. x) = mark_to_close"
  by (intro ext) (simp only: mark_to_close_fl_def mark_to_close_def holdings_value_fl_def)

lemma day_step_fl_id: "day_step_fl (\<lambda>x. x) = day_step"
  by (intro ext)
     (simp only: day_step_fl_def day_step_def overnight_edge_fl_id execute_switch_fl_id
        mark_to_close_fl_id)

lemma active_loop_fl_id:
  "active_loop_fl (\<lambda>x. x) params data xs st = active_loop params data xs st"
  by (induction xs arbitrary: st) (simp_all add: day_step_fl_id and_then_def split: sum.splits)

text \<open>With the identity for the rounding, the rounded functions are the exact ones.\<close>

lemma engine_run_fl_id: "engine_run_fl (\<lambda>x. x) = engine_run"
  by (intro ext) (simp only: engine_run_fl_def engine_run_def active_loop_fl_id)

lemma passive_equity_series_fl_id: "passive_equity_series_fl (\<lambda>x. x) = passive_equity_series"
  by (intro ext)
     (simp only: passive_equity_series_fl_def passive_equity_series_def holdings_value_fl_def)

lemma hit_rate_fl_id: "hit_rate_fl (\<lambda>x. x) = hit_rate"
  by (intro ext) (simp only: hit_rate_fl_def hit_rate_def)

lemma backtest_switching_fl_id: "backtest_switching_fl (\<lambda>x. x) = backtest_switching"
  by (intro ext)
     (simp only: backtest_switching_fl_def backtest_switching_def engine_run_fl_id
        passive_equity_series_fl_id hit_rate_fl_id)





text \<open>
  The values of \<open>binary64\<close> that the run on \<open>threshold_table\<close> needs. The overnight returns
  -0.02 and -0.015 are not doubles, and the edge that the rounded operations give is
  50.00000000000001.
\<close>

lemma binary64_values:
  "binary64 0 = 0" "binary64 1 = 1" "binary64 (- 2) = - 2" "binary64 (- 3) = - 3"
  "binary64 49 = 49" "binary64 98 = 98" "binary64 100 = 100" "binary64 147 = 147"
  "binary64 197 = 197" "binary64 9653 = 9653" "binary64 9800 = 9800"
  "binary64 10000 = 10000" "binary64 19453 = 19453"
  by code_simp+

lemma binary64_returns:
  "binary64 (- (1 / 50)) = - (5764607523034235 / 288230376151711744)"
  "binary64 (- (3 / 200)) = - (1080863910568919 / 72057594037927936)"
  "binary64 (1441151880758559 / 288230376151711744) = 1441151880758559 / 288230376151711744"
  "binary64 (900719925474099375 / 18014398509481984) = 7036874417766401 / 140737488355328"
  "1 < binary64 (197 / 98)"
  by code_simp+

lemmas engine_fl_defs =
  backtest_switching_fl_def passive_equity_series_fl_def hit_rate_fl_def holdings_value_fl_def
  engine_run_fl_def init_state_def day_step_fl_def overnight_edge_fl_def edge_from_closes_fl_def
  decide_def execute_switch_fl_def sell_leg_fl_def buy_leg_fl_def record_hit_fl_def
  mark_to_close_fl_def sget_def col1d_def truediv_fl_def floordiv_def and_then_def days_def
  day_ns_def exec_price_fl_def fee_on_notional_fl_def lower_def bar_def enumerate_eq_zip

text \<open>
  On that table the exact edge is the threshold and the exact run holds; with the rounding of
  doubles the edge is above the threshold and the run switches on the second day.
\<close>

lemma rounded_edge_at_threshold:
  "table_edge_fl (\<lambda>x. x) threshold_table 1 = 50"
  "table_edge_fl binary64 threshold_table 1 = 7036874417766401 / 140737488355328"
  "backtest_switching_fl (\<lambda>x. x) threshold_table 100 0 0 threshold_params
     = Inr (\<lparr>Index = [0, 86400000000000], Equity_Active = [10000, 9800],
              Equity_Passive = [Some 10000, Some 9800], PositionFlag = [1, 1]\<rparr>,
            \<lparr>Switches = 0, Turnover_Notional = 0, HitRate = None\<rparr>)"
  "backtest_switching_fl binary64 threshold_table 100 0 0 threshold_params
     = Inr (\<lparr>Index = [0, 86400000000000], Equity_Active = [10000, 9800],
              Equity_Passive = [Some 10000, Some 9800], PositionFlag = [1, - 1]\<rparr>,
            \<lparr>Switches = 1, Turnover_Notional = 19453, HitRate = Some 1\<rparr>)"
proof -
  show "table_edge_fl (\<lambda>x. x) threshold_table 1 = 50"
    by (simp add: table_edge_fl_def threshold_table_def bar_def)
  show "table_edge_fl binary64 threshold_table 1 = 7036874417766401 / 140737488355328"
    by (simp add: table_edge_fl_def threshold_table_def bar_def binary64_values
        binary64_returns)
  show "backtest_switching_fl (\<lambda>x. x) threshold_table 100 0 0 threshold_params
     = Inr (\<lparr>Index = [0, 86400000000000], Equity_Active = [10000, 9800],
              Equity_Passive = [Some 10000, Some 9800], PositionFlag = [1, 1]\<rparr>,
            \<lparr>Switches = 0, Turnover_Notional = 0, HitRate = None\<rparr>)"
    by (simp add: engine_fl_defs threshold_table_def threshold_params_def)
  show "backtest_switching_fl binary64 threshold_table 100 0 0 threshold_params
     = Inr (\<lparr>Index = [0, 86400000000000], Equity_Active = [10000, 9800],
              Equity_Passive = [Some 10000, Some 9800], PositionFlag = [1, - 1]\<rparr>,
            \<lparr>Switches = 1, Turnover_Notional = 19453, HitRate = Some 1\<rparr>)"
    by (simp add: engine_fl_defs threshold_table_def threshold_params_def binary64_values
        binary64_returns)
qed

section \<open>Errors of the loop\<close>

lemma and_then_eq_Inl:
  "and_then m f = Inl e \<longleftrightarrow> m = Inl e \<or> (\<exists>v. m = Inr v \<and> f v = Inl e)"
  by (cases m) simp_all

lemma truediv_Inl: "truediv a b = Inl e \<Longrightarrow> e = ZeroDivisionError"
  by (simp add: truediv_def split: if_splits)

lemma floordiv_Inl: "floordiv a b = Inl e \<Longrightarrow> e = ZeroDivisionError"
  by (simp add: floordiv_def split: if_splits)

lemma edge_from_closes_Inl:
  "edge_from_closes open1 pc1 open2 pc2 = Inl e \<Longrightarrow> e = ZeroDivisionError"
  by (auto simp: edge_from_closes_def and_then_eq_Inl dest: truediv_Inl)

lemma edge_from_closes_zero:
  "pc1 = 0 \<or> pc2 = 0 \<Longrightarrow> edge_from_closes open1 pc1 open2 pc2 = Inl ZeroDivisionError"
  by (auto simp: edge_from_closes_def truediv_def)

lemma edge_from_closes_nonzero:
  "pc1 \<noteq> 0 \<Longrightarrow> pc2 \<noteq> 0 \<Longrightarrow>
   edge_from_closes open1 pc1 open2 pc2
     = Inr (((open2 - pc2) / pc2 - (open1 - pc1) / pc1) * 10000)"
  by (simp add: edge_from_closes_def truediv_def)

lemma buy_leg_Inl: "buy_leg params open1 open2 t st = Inl e \<Longrightarrow> e = ZeroDivisionError"
  by (auto simp: buy_leg_def Let_def and_then_eq_Inl split: if_splits dest: floordiv_Inl)

lemma record_hit_Inl: "record_hit i t close1 close2 st = Inl e \<Longrightarrow> e = ZeroDivisionError"
  by (auto simp: record_hit_def and_then_eq_Inl split: if_splits dest: truediv_Inl)

lemma execute_switch_Inl:
  "execute_switch params i d open1 close1 open2 close2 edge_bps t st = Inl e
   \<Longrightarrow> e = ZeroDivisionError"
  by (auto simp: execute_switch_def Let_def and_then_eq_Inl dest: buy_leg_Inl record_hit_Inl)

lemma day_step_Inl:
  assumes "distinct (map date data)" and "i < length data"
    and "day_step params data (i, date (data ! i)) st = Inl e"
  shows "e = ZeroDivisionError"
proof -
  note s = sget_nth[OF assms(1,2)]
  have oe: "e' = ZeroDivisionError"
    if "overnight_edge data i (Open_Stock1 (data ! i)) (Open_Stock2 (data ! i)) = Inl e'" for e'
  proof (cases i)
    case 0
    with that show ?thesis by (simp add: overnight_edge_def)
  next
    case (Suc j)
    then have j: "j < length data" using assms(2) by simp
    have d: "map date data ! j = date (data ! j)" using j by simp
    from that show ?thesis
      by (simp add: Suc overnight_edge_def Let_def d sget_nth[OF assms(1) j])
         (rule edge_from_closes_Inl)
  qed
  let ?rest = "\<lambda>edge_bps.
      case decide params i (date (data ! i)) (holding1 st) (last_switch_date st) edge_bps of
        (do_switch, target_is_2) \<Rightarrow>
          and_then
            (if do_switch
             then execute_switch params i (date (data ! i)) (Open_Stock1 (data ! i))
                    (Close_Stock1 (data ! i)) (Open_Stock2 (data ! i)) (Close_Stock2 (data ! i))
                    edge_bps target_is_2 st
             else Inr st)
            (\<lambda>st'. Inr (mark_to_close (Close_Stock1 (data ! i)) (Close_Stock2 (data ! i)) st'))"
  from assms(3) have
    "and_then (overnight_edge data i (Open_Stock1 (data ! i)) (Open_Stock2 (data ! i))) ?rest
       = Inl e"
    by (simp add: day_step_def s)
  then consider
    "overnight_edge data i (Open_Stock1 (data ! i)) (Open_Stock2 (data ! i)) = Inl e"
    | v where "?rest v = Inl e"
    unfolding and_then_eq_Inl by blast
  then show ?thesis
  proof cases
    case 1
    then show ?thesis by (rule oe)
  next
    case 2
    obtain b t where
      dc: "decide params i (date (data ! i)) (holding1 st) (last_switch_date st) v = (b, t)"
      by (cases "decide params i (date (data ! i)) (holding1 st) (last_switch_date st) v")
    show ?thesis
    proof (cases b)
      case True
      with 2 dc have
        "execute_switch params i (date (data ! i)) (Open_Stock1 (data ! i))
           (Close_Stock1 (data ! i)) (Open_Stock2 (data ! i)) (Close_Stock2 (data ! i))
           v t st = Inl e"
        by (simp add: and_then_eq_Inl)
      then show ?thesis by (rule execute_switch_Inl)
    next
      case False
      with 2 dc show ?thesis by simp
    qed
  qed
qed

lemma day_step_zero_close:
  assumes "distinct (map date data)" and "0 < i" and "i < length data"
    and "Close_Stock1 (data ! (i - 1)) = 0 \<or> Close_Stock2 (data ! (i - 1)) = 0"
  shows "day_step params data (i, date (data ! i)) st = Inl ZeroDivisionError"
proof -
  from assms(2) obtain j where i: "i = Suc j" by (cases i) auto
  have j: "j < length data" using assms(3) i by simp
  have d: "map date data ! j = date (data ! j)" using j by simp
  from assms(4) have z: "Close_Stock1 (data ! j) = 0 \<or> Close_Stock2 (data ! j) = 0"
    by (simp add: i)
  have "overnight_edge data i (Open_Stock1 (data ! i)) (Open_Stock2 (data ! i))
          = Inl ZeroDivisionError"
    by (simp add: i overnight_edge_def Let_def d sget_nth[OF assms(1) j]
        edge_from_closes_zero[OF z])
  then show ?thesis
    by (simp add: day_step_def sget_nth[OF assms(1,3)])
qed

lemma active_loop_fails:
  assumes "x \<in> set xs"
    and "\<And>st. day_step params data x st = Inl ZeroDivisionError"
    and "\<And>y st e. y \<in> set xs \<Longrightarrow> day_step params data y st = Inl e \<Longrightarrow> e = ZeroDivisionError"
  shows "active_loop params data xs st = Inl ZeroDivisionError"
  using assms(1,3)
proof (induction xs arbitrary: st)
  case Nil
  then show ?case by simp
next
  case (Cons y ys)
  show ?case
  proof (cases "day_step params data y st")
    case (Inl e)
    with Cons.prems(2)[of y st e] show ?thesis by simp
  next
    case (Inr st')
    with assms(2) have "y \<noteq> x" by auto
    with Cons.prems(1) have x: "x \<in> set ys" by simp
    have "active_loop params data ys st' = Inl ZeroDivisionError"
    proof (rule Cons.IH[OF x])
      fix z s e
      assume "z \<in> set ys" and "day_step params data z s = Inl e"
      with Cons.prems(2)[of z s e] show "e = ZeroDivisionError" by simp
    qed
    with Inr show ?thesis by simp
  qed
qed

section \<open>The decision with the cooldown open, and the join of an empty table\<close>

lemma decide_cooldown_ok:
  assumes "0 < i"
    and "last_switch = None \<or> (\<exists>l. last_switch = Some l \<and> cooldown_days params \<le> days (d - l))"
  shows "decide params i d held last_switch e =
           (if held \<and> hysteresis_bps params < e then (True, True)
            else if \<not> held \<and> e < - hysteresis_bps params then (True, False)
            else (False, False))"
  using assms by (auto simp: decide_def Let_def)

lemma inner_join_empty: "inner_join [] right = []" "inner_join left [] = []"
  by (simp_all add: inner_join_def)

section \<open>Execution model: fill price and fee\<close>

lemma lower_buy: "lower ''buy'' = ''buy''"
  by (simp add: lower_def)

lemma lower_sell: "lower ''sell'' = ''sell''"
  by (simp add: lower_def)

lemma exec_price_buy: "exec_price p s ''buy'' = p * (1 + s / 10000)"
  by (simp add: exec_price_def lower_buy)

lemma exec_price_sell: "exec_price p s ''sell'' = p * (1 - s / 10000)"
  by (simp add: exec_price_def lower_sell)

text \<open>
  Claim C9. A buy fills at \<open>open_price * (1 + slippage_bps / 10000)\<close>, a sell at
  \<open>open_price * (1 - slippage_bps / 10000)\<close>; the fee is \<open>abs(notional) * fee_bps / 10000\<close>,
  which is non-negative for every notional as soon as \<open>fee_bps\<close> is.
\<close>

theorem exec_price_fee_spec:
  "exec_price open_price slip ''buy'' = open_price * (1 + slip / 10000)
   \<and> exec_price open_price slip ''sell'' = open_price * (1 - slip / 10000)
   \<and> fee_on_notional notional fee = \<bar>notional\<bar> * fee / 10000
   \<and> (0 \<le> fee \<longrightarrow> 0 \<le> fee_on_notional notional fee)"
  by (simp add: exec_price_buy exec_price_sell fee_on_notional_def)

theorem exec_price_fee_spec_witness:
  "exec_price 100 50 ''buy'' = 100 * (1 + 50 / 10000)
   \<and> exec_price 100 50 ''sell'' = 100 * (1 - 50 / 10000)
   \<and> fee_on_notional (- 2000) 25 = \<bar>- 2000\<bar> * 25 / 10000
   \<and> (0::real) \<le> 25 \<and> 0 \<le> fee_on_notional (- 2000) 25"
  using exec_price_fee_spec [of 100 50 "- 2000" 25] by simp

section \<open>Cooldown\<close>

text \<open>
  Claim C4. Two consecutive switches of a run are at least \<open>cooldown_days\<close> apart, the distance
  being \<open>(date - last_switch_date).days\<close>; and the decision switches only when there was no
  earlier switch or that distance has reached \<open>cooldown_days\<close>.
\<close>

theorem cooldown_between_switches:
  assumes "engine_run data shares1_init shares2_init cash_init params = Inr st"
  shows "(\<forall>k. Suc k < length (switch_log st) \<longrightarrow>
            cooldown_days params
              \<le> days (ev_date (switch_log st ! Suc k) - ev_date (switch_log st ! k)))
       \<and> (\<forall>i d held1 last_switch edge_bps.
            fst (decide params i d held1 last_switch edge_bps) \<longrightarrow>
              last_switch = None
              \<or> (\<exists>l. last_switch = Some l \<and> cooldown_days params \<le> days (d - l)))"
proof
  let ?I = "\<lambda>s. (\<forall>k. Suc k < length (switch_log s) \<longrightarrow>
                  cooldown_days params
                    \<le> days (ev_date (switch_log s ! Suc k) - ev_date (switch_log s ! k)))
              \<and> last_switch_date s
                  = (if switch_log s = [] then None else Some (ev_date (last (switch_log s))))"
  have "?I st"
  proof (rule engine_run_invariant[OF assms, where I = ?I])
    show "?I (init_state shares1_init shares2_init cash_init)"
      by (simp add: init_state_def)
  next
    fix i d s s'
    assume inv: "?I s" and step: "day_step params data (i, d) s = Inr s'"
    from step show "?I s'"
    proof (cases rule: day_step_log)
      case hold
      with inv show ?thesis by simp
    next
      case (switch ev)
      note lg = switch(1) and ls = switch(4) and dt = switch(5) and dc = switch(11)
      have spaced: "cooldown_days params
              \<le> days (ev_date (switch_log s' ! Suc k) - ev_date (switch_log s' ! k))"
        if k: "Suc k < length (switch_log s')" for k
      proof (cases "Suc k < length (switch_log s)")
        case True
        then show ?thesis using inv by (simp add: lg nth_append)
      next
        case False
        with k have kk: "Suc k = length (switch_log s)" by (simp add: lg)
        then have ne: "switch_log s \<noteq> []" by auto
        have lastk: "switch_log s ! k = last (switch_log s)"
          using kk[symmetric] ne by (simp add: last_conv_nth)
        from inv ne have "last_switch_date s = Some (ev_date (last (switch_log s)))" by simp
        with decide_True(2)[OF dc]
        have "cooldown_days params \<le> days (d - ev_date (last (switch_log s)))" by simp
        then show ?thesis using kk lastk by (simp add: lg nth_append dt)
      qed
      show ?thesis
        using spaced by (simp add: lg ls dt)
    qed
  qed
  then show "\<forall>k. Suc k < length (switch_log st) \<longrightarrow>
            cooldown_days params
              \<le> days (ev_date (switch_log st ! Suc k) - ev_date (switch_log st ! k))"
    by blast
next
  show "\<forall>i d held1 last_switch edge_bps.
            fst (decide params i d held1 last_switch edge_bps) \<longrightarrow>
              last_switch = None
              \<or> (\<exists>l. last_switch = Some l \<and> cooldown_days params \<le> days (d - l))"
    by (auto simp: decide_def Let_def split: if_splits option.splits)
qed

theorem cooldown_between_switches_witness:
  "engine_run demo_table 100 0 0 (demo_params 0) = Inr demo_final
   \<and> Suc 0 < length (switch_log demo_final)
   \<and> cooldown_days (demo_params 0)
        \<le> days (ev_date (switch_log demo_final ! Suc 0) - ev_date (switch_log demo_final ! 0))
   \<and> fst (decide (demo_params 0) 2 (2 * day_ns) False (Some day_ns) (- 1000))
   \<and> cooldown_days (demo_params 0) \<le> days (2 * day_ns - day_ns)"
  using cooldown_between_switches [OF demo_run] demo_run
  by (simp add: demo_final_def demo_params_def decide_def days_def day_ns_def)

section \<open>Cash after the buy leg\<close>

text \<open>
  Claim C1, as amended. At every switch of a run the buy leg divides by a non-zero fill price,
  buys \<open>floor(cash / fill_price)\<close> shares and leaves
  \<open>cash - notional - fee(notional)\<close>. With a positive fill price (which positive opens and
  \<open>slippage_bps > -10000\<close> give) the cash left once the notional is subtracted is not negative;
  the fee of the buy leg is then charged without a reserve, so the cash after the buy leg is
  not negative when \<open>fee_bps = 0\<close>.
\<close>

theorem cash_after_buy_leg:
  assumes "engine_run data shares1_init shares2_init cash_init params = Inr st"
    and "ev \<in> set (switch_log st)"
  shows "ev_buy_px ev \<noteq> 0
       \<and> ev_cash_after_buy ev =
           ev_cash_before_buy ev
           - real_of_int \<lfloor>ev_cash_before_buy ev / ev_buy_px ev\<rfloor> * ev_buy_px ev
           - fee_on_notional
               (real_of_int \<lfloor>ev_cash_before_buy ev / ev_buy_px ev\<rfloor> * ev_buy_px ev)
               (fee_bps params)
       \<and> (0 < ev_buy_px ev \<longrightarrow>
            0 \<le> ev_cash_before_buy ev
                  - real_of_int \<lfloor>ev_cash_before_buy ev / ev_buy_px ev\<rfloor> * ev_buy_px ev)
       \<and> (0 < ev_buy_px ev \<and> fee_bps params = 0 \<longrightarrow> 0 \<le> ev_cash_after_buy ev)
       \<and> ((\<forall>r\<in>set data. 0 < Open_Stock1 r \<and> 0 < Open_Stock2 r) \<and> - 10000 < slippage_bps params
            \<longrightarrow> 0 < ev_buy_px ev)"
proof -
  let ?P = "\<lambda>ev. ev_buy_px ev \<noteq> 0
       \<and> ev_cash_after_buy ev =
           ev_cash_before_buy ev
           - real_of_int \<lfloor>ev_cash_before_buy ev / ev_buy_px ev\<rfloor> * ev_buy_px ev
           - fee_on_notional
               (real_of_int \<lfloor>ev_cash_before_buy ev / ev_buy_px ev\<rfloor> * ev_buy_px ev)
               (fee_bps params)
       \<and> (\<exists>r\<in>set data. ev_buy_px ev =
           exec_price (if ev_target_is_2 ev then Open_Stock2 r else Open_Stock1 r)
             (slippage_bps params) ''buy'')"
  have "\<forall>ev\<in>set (switch_log st). ?P ev"
  proof (rule engine_run_invariant[OF assms(1), where I = "\<lambda>s. \<forall>ev\<in>set (switch_log s). ?P ev"])
    show "\<forall>ev\<in>set (switch_log (init_state shares1_init shares2_init cash_init)). ?P ev"
      by (simp add: init_state_def)
  next
    fix i d s s'
    assume inv: "\<forall>ev\<in>set (switch_log s). ?P ev"
      and step: "day_step params data (i, d) s = Inr s'"
    from step show "\<forall>ev\<in>set (switch_log s'). ?P ev"
    proof (cases rule: day_step_log)
      case hold
      with inv show ?thesis by simp
    next
      case (switch ev)
      from day_step_new_event[OF step switch(1)] have "?P ev" by blast
      with inv show ?thesis by (simp add: switch(1))
    qed
  qed
  with assms(2) have p: "?P ev" by blast
  have res: "0 \<le> ev_cash_before_buy ev
                  - real_of_int \<lfloor>ev_cash_before_buy ev / ev_buy_px ev\<rfloor> * ev_buy_px ev"
    if "0 < ev_buy_px ev"
    using floor_residual(1)[OF that] .
  have nofee: "0 \<le> ev_cash_after_buy ev" if "0 < ev_buy_px ev" "fee_bps params = 0"
    using res[OF that(1)] p that(2) by (simp add: fee_on_notional_def)
  have pos: "0 < ev_buy_px ev"
    if a: "\<forall>r\<in>set data. 0 < Open_Stock1 r \<and> 0 < Open_Stock2 r" and b: "- 10000 < slippage_bps params"
  proof -
    from p obtain r where r: "r \<in> set data" and
      px: "ev_buy_px ev = exec_price (if ev_target_is_2 ev then Open_Stock2 r else Open_Stock1 r)
             (slippage_bps params) ''buy''"
      by blast
    from b have "0 < 1 + slippage_bps params / 10000" by simp
    moreover from a r have "0 < (if ev_target_is_2 ev then Open_Stock2 r else Open_Stock1 r)"
      by simp
    ultimately show ?thesis
      unfolding px exec_price_buy by (rule mult_pos_pos[rotated])
  qed
  from p res nofee pos show ?thesis by blast
qed


theorem cash_after_buy_leg_witness:
  "engine_run demo_table 100 0 0 (demo_params 0) = Inr demo_final
   \<and> switch_log demo_final ! 0 \<in> set (switch_log demo_final)
   \<and> - 10000 < slippage_bps (demo_params 0)
   \<and> 0 < ev_buy_px (switch_log demo_final ! 0)
   \<and> fee_bps (demo_params 0) = 0
   \<and> 0 \<le> ev_cash_after_buy (switch_log demo_final ! 0)"
  using cash_after_buy_leg [OF demo_run, of "switch_log demo_final ! 0"] demo_run
  by (simp add: demo_final_def demo_params_def)

theorem cash_after_buy_leg_counterexample:
  "engine_run demo_table 100 0 0 (demo_params 100) = Inr demo_fee_final
   \<and> switch_log demo_fee_final ! 0 \<in> set (switch_log demo_fee_final)
   \<and> ev_buy_px (switch_log demo_fee_final ! 0) = 11
   \<and> ev_cash_before_buy (switch_log demo_fee_final ! 0) = 990
   \<and> ev_cash_after_buy (switch_log demo_fee_final ! 0) < 0"
  using demo_fee_run by (simp add: demo_fee_final_def)

section \<open>Hysteresis\<close>

text \<open>
  Claim C5. Every switch of a run was taken on the side of the asset held: from asset 1 only
  with \<open>edge_bps > hysteresis_bps\<close>, from asset 2 only with \<open>edge_bps < -hysteresis_bps\<close>, hence
  \<open>|edge_bps| > hysteresis_bps\<close>; an edge equal to the threshold does not switch.
\<close>

theorem hysteresis_strict_at_switches:
  assumes "engine_run data shares1_init shares2_init cash_init params = Inr st"
    and "ev \<in> set (switch_log st)"
  shows "(if ev_from_asset1 ev
          then ev_target_is_2 ev \<and> hysteresis_bps params < ev_edge_bps ev
          else \<not> ev_target_is_2 ev \<and> ev_edge_bps ev < - hysteresis_bps params)
       \<and> hysteresis_bps params < \<bar>ev_edge_bps ev\<bar>
       \<and> \<not> fst (decide params i d True last_switch (hysteresis_bps params))
       \<and> \<not> fst (decide params i d False last_switch (- hysteresis_bps params))"
proof -
  let ?P = "\<lambda>ev. if ev_from_asset1 ev
          then ev_target_is_2 ev \<and> hysteresis_bps params < ev_edge_bps ev
          else \<not> ev_target_is_2 ev \<and> ev_edge_bps ev < - hysteresis_bps params"
  have "\<forall>ev\<in>set (switch_log st). ?P ev"
  proof (rule engine_run_invariant[OF assms(1), where I = "\<lambda>s. \<forall>ev\<in>set (switch_log s). ?P ev"])
    show "\<forall>ev\<in>set (switch_log (init_state shares1_init shares2_init cash_init)). ?P ev"
      by (simp add: init_state_def)
  next
    fix i d s s'
    assume inv: "\<forall>ev\<in>set (switch_log s). ?P ev"
      and step: "day_step params data (i, d) s = Inr s'"
    from step show "\<forall>ev\<in>set (switch_log s'). ?P ev"
    proof (cases rule: day_step_log)
      case hold
      with inv show ?thesis by simp
    next
      case (switch ev)
      from decide_True(3,4)[OF switch(11)] have "?P ev"
        by (simp add: switch(8))
      with inv show ?thesis by (simp add: switch(1))
    qed
  qed
  with assms(2) have p: "?P ev" by blast
  then have "hysteresis_bps params < \<bar>ev_edge_bps ev\<bar>"
    by (auto split: if_splits)
  moreover have "\<not> fst (decide params i d True last_switch (hysteresis_bps params))"
    by (simp add: decide_def Let_def)
  moreover have "\<not> fst (decide params i d False last_switch (- hysteresis_bps params))"
    by (simp add: decide_def Let_def)
  ultimately show ?thesis using p by blast
qed

theorem hysteresis_strict_at_switches_witness:
  "engine_run demo_table 100 0 0 (demo_params 0) = Inr demo_final
   \<and> switch_log demo_final ! 1 \<in> set (switch_log demo_final)
   \<and> \<not> ev_from_asset1 (switch_log demo_final ! 1)
   \<and> \<not> ev_target_is_2 (switch_log demo_final ! 1)
   \<and> ev_edge_bps (switch_log demo_final ! 1) < - hysteresis_bps (demo_params 0)
   \<and> hysteresis_bps (demo_params 0) < \<bar>ev_edge_bps (switch_log demo_final ! 1)\<bar>
   \<and> \<not> fst (decide (demo_params 0) 1 day_ns True None (hysteresis_bps (demo_params 0)))"
  using hysteresis_strict_at_switches [OF demo_run, of "switch_log demo_final ! 1" 1 day_ns None]
    demo_run
  by (simp add: demo_final_def demo_params_def)

section \<open>Hit rate\<close>

text \<open>
  Claim C10. The hit rate of a run is undefined exactly when no switch occurred; there is one
  observation per switch, the observation of a switch being the close of the asset switched
  into over the other close of that date, compared with one; and with at least one switch the
  hit rate is the fraction of the switches whose observation is true.
\<close>

theorem hit_rate_per_switch:
  assumes "backtest_switching data shares1_init shares2_init cash_init params = Inr (res, sts)"
  shows "(HitRate sts = None \<longleftrightarrow> Switches sts = 0)
       \<and> (\<exists>st. engine_run data shares1_init shares2_init cash_init params = Inr st
             \<and> Switches sts = length (switch_log st)
             \<and> switch_hits st = map hit_observation (switch_log st)
             \<and> (\<forall>ev\<in>set (switch_log st).
                   sget (col1d data Close_Stock1) (ev_date ev) = Inr (ev_close1 ev)
                   \<and> sget (col1d data Close_Stock2) (ev_date ev) = Inr (ev_close2 ev))
             \<and> (0 < Switches sts \<longrightarrow>
                   HitRate sts =
                     Some (real (length (filter hit_observation (switch_log st)))
                             / real (Switches sts))))"
proof -
  from assms obtain st where
    run: "engine_run data shares1_init shares2_init cash_init params = Inr st" and
    sw: "Switches sts = switches st" and
    hr: "HitRate sts = hit_rate (switch_hits st)"
    by (auto simp: backtest_switching_def Let_def and_then_eq_Inr)
  let ?I = "\<lambda>s. switches s = length (switch_log s)
              \<and> switch_hits s = map hit_observation (switch_log s)
              \<and> (\<forall>ev\<in>set (switch_log s).
                   sget (col1d data Close_Stock1) (ev_date ev) = Inr (ev_close1 ev)
                   \<and> sget (col1d data Close_Stock2) (ev_date ev) = Inr (ev_close2 ev))"
  have inv: "?I st"
  proof (rule engine_run_invariant[OF run, where I = ?I])
    show "?I (init_state shares1_init shares2_init cash_init)"
      by (simp add: init_state_def)
  next
    fix i d s s'
    assume inv: "?I s" and step: "day_step params data (i, d) s = Inr s'"
    from step show "?I s'"
    proof (cases rule: day_step_log)
      case hold
      with inv show ?thesis by simp
    next
      case (switch ev)
      with inv show ?thesis by simp
    qed
  qed
  have none: "HitRate sts = None \<longleftrightarrow> Switches sts = 0"
    using inv by (simp add: hr sw hit_rate_def)
  have cnt: "length (filter (\<lambda>h. h) (map hit_observation (switch_log st)))
               = length (filter hit_observation (switch_log st))"
    by (simp add: filter_map o_def)
  have rate: "HitRate sts =
                Some (real (length (filter hit_observation (switch_log st))) / real (Switches sts))"
    if "0 < Switches sts"
    using that inv cnt by (auto simp: hr sw hit_rate_def)
  from run inv none rate sw show ?thesis by auto
qed

theorem hit_rate_per_switch_witness:
  "backtest_switching demo_table 100 0 0 (demo_params 0)
     = Inr (\<lparr>Index = [0, 86400000000000, 172800000000000],
              Equity_Active = [1000, 1000, 910],
              Equity_Passive = [Some 1000, Some 1000, Some 1000],
              PositionFlag = [1, - 1, 1]\<rparr>,
            \<lparr>Switches = 2, Turnover_Notional = 3970, HitRate = Some (1 / 2)\<rparr>)
   \<and> (0::nat) < 2
   \<and> engine_run demo_table 100 0 0 (demo_params 0) = Inr demo_final
   \<and> length (switch_log demo_final) = 2
   \<and> map hit_observation (switch_log demo_final) = [True, False]"
proof -
  have b: "backtest_switching demo_table 100 0 0 (demo_params 0)
     = Inr (\<lparr>Index = [0, 86400000000000, 172800000000000],
              Equity_Active = [1000, 1000, 910],
              Equity_Passive = [Some 1000, Some 1000, Some 1000],
              PositionFlag = [1, - 1, 1]\<rparr>,
            \<lparr>Switches = 2, Turnover_Notional = 3970, HitRate = Some (1 / 2)\<rparr>)"
    by (simp add: backtest_switching_def demo_run passive_equity_series_def)
       (simp add: demo_final_def demo_table_def bar_def col1d_def hit_rate_def day_ns_def)
  from hit_rate_per_switch [OF b] demo_run b show ?thesis
    by (simp add: demo_final_def hit_observation_def)
qed

section \<open>The first date\<close>

text \<open>
  Claim C7. On the first date of a table the edge is zero and the decision is to hold, whatever
  the parameters: the first step of the loop succeeds without a switch, and the first position
  flag of a run is +1 exactly when \<open>shares1_init > 0\<close>; no recorded switch is on the first date.
\<close>

theorem first_date_no_switch:
  assumes "data = r # rs"
  shows "(\<exists>st1. day_step params data (0, date r) (init_state shares1_init shares2_init cash_init)
                  = Inr st1
             \<and> switches st1 = 0 \<and> switch_log st1 = [] \<and> last_switch_date st1 = None
             \<and> shares1 st1 = shares1_init \<and> shares2 st1 = shares2_init \<and> cash st1 = cash_init
             \<and> pos_flag st1 = [if 0 < shares1_init then 1 else - 1])
       \<and> overnight_edge data 0 open_a open_b = Inr 0
       \<and> decide params 0 d held last_switch edge_bps = (False, False)
       \<and> (\<forall>st. engine_run data shares1_init shares2_init cash_init params = Inr st \<longrightarrow>
             pos_flag st ! 0 = (if 0 < shares1_init then 1 else - 1)
             \<and> (\<forall>ev\<in>set (switch_log st). ev_index ev \<noteq> 0))
       \<and> (\<forall>res sts. backtest_switching data shares1_init shares2_init cash_init params
                        = Inr (res, sts) \<longrightarrow>
             PositionFlag res ! 0 = (if 0 < shares1_init then 1 else - 1))"
proof -
  let ?init = "init_state shares1_init shares2_init cash_init"
  let ?st1 = "mark_to_close (Close_Stock1 r) (Close_Stock2 r) ?init"
  let ?f = "if 0 < shares1_init then 1 else - 1 :: int"
  have step: "day_step params data (0, date r) ?init = Inr ?st1"
    unfolding assms by (rule first_day_step)
  have st1: "switches ?st1 = 0" "switch_log ?st1 = []" "last_switch_date ?st1 = None"
    "shares1 ?st1 = shares1_init" "shares2 ?st1 = shares2_init" "cash ?st1 = cash_init"
    "pos_flag ?st1 = [?f]"
    by (simp_all add: mark_to_close_keeps) (simp_all add: init_state_def)
  have run_flag: "pos_flag st ! 0 = ?f \<and> (\<forall>ev\<in>set (switch_log st). ev_index ev \<noteq> 0)"
    if run: "engine_run data shares1_init shares2_init cash_init params = Inr st" for st
  proof -
    from run have rest: "active_loop params data (enumerate 1 (map date rs)) ?st1 = Inr st"
      unfolding engine_run_def assms using step[unfolded assms] by simp
    let ?I = "\<lambda>s. pos_flag s \<noteq> [] \<and> pos_flag s ! 0 = ?f
                  \<and> (\<forall>ev\<in>set (switch_log s). ev_index ev \<noteq> 0)"
    have "?I st"
    proof (rule active_loop_invariant[OF rest, where I = ?I])
      show "?I ?st1" by (simp add: st1)
    next
      fix x s s'
      assume inv: "?I s" and stp: "day_step params data x s = Inr s'"
      obtain i d where x: "x = (i, d)" by (cases x)
      from day_step_appends[OF stp[unfolded x]] inv
      have a: "pos_flag s' \<noteq> [] \<and> pos_flag s' ! 0 = ?f"
        by (auto simp: nth_append)
      from stp[unfolded x] have "\<forall>ev\<in>set (switch_log s'). ev_index ev \<noteq> 0"
      proof (cases rule: day_step_log)
        case hold
        with inv show ?thesis by simp
      next
        case (switch ev)
        with inv show ?thesis by simp
      qed
      with a show "?I s'" by blast
    qed
    then show ?thesis by blast
  qed
  have bt: "PositionFlag res ! 0 = ?f"
    if "backtest_switching data shares1_init shares2_init cash_init params = Inr (res, sts)"
    for res sts
  proof -
    from that obtain st where
      "engine_run data shares1_init shares2_init cash_init params = Inr st"
      "PositionFlag res = pos_flag st"
      by (auto simp: backtest_switching_def Let_def and_then_eq_Inr)
    with run_flag show ?thesis by simp
  qed
  have e0: "overnight_edge data 0 open_a open_b = Inr 0"
    by (simp add: overnight_edge_def)
  have d0: "decide params 0 d held last_switch edge_bps = (False, False)"
    by (simp add: decide_def)
  from step st1 have "\<exists>st1. day_step params data (0, date r) ?init = Inr st1
             \<and> switches st1 = 0 \<and> switch_log st1 = [] \<and> last_switch_date st1 = None
             \<and> shares1 st1 = shares1_init \<and> shares2 st1 = shares2_init \<and> cash st1 = cash_init
             \<and> pos_flag st1 = [?f]"
    by blast
  with e0 d0 run_flag bt show ?thesis by blast
qed


theorem first_date_no_switch_witness:
  "demo_table = bar 0 10 10 10 10 # [bar 1 10 10 11 11, bar 2 11 10 11 11]
   \<and> decide \<lparr>hysteresis_bps = - 5, cooldown_days = 0, fee_bps = 0, slippage_bps = 0\<rparr>
        0 0 True None 0 = (False, False)
   \<and> engine_run demo_table 100 0 0 (demo_params 0) = Inr demo_final
   \<and> pos_flag demo_final ! 0 = 1
   \<and> ev_index (switch_log demo_final ! 0) \<noteq> 0"
proof -
  have t: "demo_table = bar 0 10 10 10 10 # [bar 1 10 10 11 11, bar 2 11 10 11 11]"
    by (simp add: demo_table_def)
  from first_date_no_switch [OF t,
      where params = "\<lparr>hysteresis_bps = - 5, cooldown_days = 0, fee_bps = 0, slippage_bps = 0\<rparr>"
        and d = 0 and held = True and last_switch = None and edge_bps = 0]
    first_date_no_switch [OF t, where params = "demo_params 0"
        and shares1_init = 100 and shares2_init = 0 and cash_init = 0]
    t demo_run
  show ?thesis by (simp add: demo_final_def)
qed

section \<open>An unreachable threshold\<close>



section \<open>A previous close that is zero or negative\<close>

text \<open>
  Claim C2, as amended. On an aligned table with a previous close of zero at some date after
  the first, the run aborts with \<open>ZeroDivisionError\<close> and returns no results; when both
  previous closes are not zero, negative ones included, the edge is computed from them.
\<close>

theorem zero_previous_close_aborts:
  assumes "distinct (map date data)" and "0 < i" and "i < length data"
    and "Close_Stock1 (data ! (i - 1)) = 0 \<or> Close_Stock2 (data ! (i - 1)) = 0"
  shows "engine_run data shares1_init shares2_init cash_init params = Inl ZeroDivisionError
       \<and> backtest_switching data shares1_init shares2_init cash_init params
           = Inl ZeroDivisionError
       \<and> (prev_close_a \<noteq> 0 \<and> prev_close_b \<noteq> 0 \<longrightarrow>
            edge_from_closes open_a prev_close_a open_b prev_close_b
              = Inr (((open_b - prev_close_b) / prev_close_b
                      - (open_a - prev_close_a) / prev_close_a) * 10000))"
proof -
  have mem: "(i, date (data ! i)) \<in> set (enumerate 0 (map date data))"
    using assms(3) by (simp add: in_set_enumerate_eq)
  have run: "engine_run data shares1_init shares2_init cash_init params = Inl ZeroDivisionError"
    unfolding engine_run_def
  proof (rule active_loop_fails[OF mem])
    fix st
    show "day_step params data (i, date (data ! i)) st = Inl ZeroDivisionError"
      by (rule day_step_zero_close[OF assms])
  next
    fix y st e
    assume y: "y \<in> set (enumerate 0 (map date data))"
      and f: "day_step params data y st = Inl e"
    from y have "fst y < length data" "y = (fst y, date (data ! fst y))"
      by (auto simp: in_set_enumerate_eq prod_eq_iff)
    with f day_step_Inl[OF assms(1), of "fst y" params st e] show "e = ZeroDivisionError"
      by simp
  qed
  then have "backtest_switching data shares1_init shares2_init cash_init params
           = Inl ZeroDivisionError"
    by (simp add: backtest_switching_def)
  with run show ?thesis by (simp add: edge_from_closes_nonzero)
qed

theorem zero_previous_close_aborts_witness:
  "distinct (map date zero_close_table)
   \<and> (0::nat) < 1 \<and> 1 < length zero_close_table
   \<and> Close_Stock1 (zero_close_table ! (1 - 1)) = 0
   \<and> backtest_switching zero_close_table 100 0 0 (demo_params 0) = Inl ZeroDivisionError
   \<and> (- 10 :: real) \<noteq> 0 \<and> (10 :: real) \<noteq> 0
   \<and> edge_from_closes 10 (- 10) 10 10 = Inr 20000"
proof -
  have h1: "distinct (map date zero_close_table)"
    by (simp add: zero_close_table_def bar_def day_ns_def)
  have h2: "(0::nat) < 1" by simp
  have h3: "1 < length zero_close_table" by (simp add: zero_close_table_def)
  have h4: "Close_Stock1 (zero_close_table ! (1 - 1)) = 0
            \<or> Close_Stock2 (zero_close_table ! (1 - 1)) = 0"
    by (simp add: zero_close_table_def bar_def)
  from zero_previous_close_aborts [OF h1 h2 h3 h4, of 100 0 0 "demo_params 0" "- 10" 10 10 10]
    h1 h3
  show ?thesis by (simp add: zero_close_table_def bar_def)
qed

theorem negative_previous_close_counterexample:
  "Close_Stock1 (negative_close_table ! 0) < 0
   \<and> backtest_switching negative_close_table 100 0 0 (demo_params 0)
       = Inr (\<lparr>Index = [0, 86400000000000], Equity_Active = [- 1000, 1000],
                Equity_Passive = [Some (- 1000), Some 1000], PositionFlag = [1, - 1]\<rparr>,
              \<lparr>Switches = 1, Turnover_Notional = 2000, HitRate = Some 0\<rparr>)"
  by (simp add: backtest_switching_def passive_equity_series_def hit_rate_def engine_defs
      negative_close_table_def demo_params_def)

section \<open>The point-in-time signal against the engine\<close>

text \<open>
  Claim C8. On a date after the first, with the cooldown permitting, the decision of
  \<^verbatim>\<open>signal2.py\<close> from the two opens, the two previous closes, the holding and the threshold is the
  decision the engine takes from the same inputs (steps 1 to 3: edge, cooldown, hysteresis),
  a zero previous close failing on both sides; and the signal switches or holds on the side of
  the asset held.
\<close>

theorem signal2_refines_engine_decision:
  assumes "0 < i"
    and "sget (col1d data Close_Stock1) (map date data ! (i - 1)) = Inr cA"
    and "sget (col1d data Close_Stock2) (map date data ! (i - 1)) = Inr cB"
    and "last_switch = None \<or> (\<exists>l. last_switch = Some l \<and> cooldown_days params \<le> days (d - l))"
  shows "and_then (overnight_edge data i oA oB)
           (\<lambda>edge_bps. Inr (decide params i d (holding = ''A'') last_switch edge_bps))
         = and_then (signal2_decision oA cA oB cB holding (hysteresis_bps params))
             (\<lambda>a. Inr (decision_of_action a))
       \<and> (\<forall>a. signal2_decision oA cA oB cB holding (hysteresis_bps params) = Inr a \<longrightarrow>
             (if holding = ''A'' then a = Switch_to_B \<or> a = Hold_A
              else a = Switch_to_A \<or> a = Hold_B))"
proof -
  have oe: "overnight_edge data i oA oB = edge_from_closes oA cA oB cB"
    using assms(1,2,3) by (simp add: overnight_edge_def Let_def)
  note dc = decide_cooldown_ok[OF assms(1,4)]
  have eq: "and_then (edge_from_closes oA cA oB cB)
           (\<lambda>edge_bps. Inr (decide params i d (holding = ''A'') last_switch edge_bps))
         = and_then (signal2_decision oA cA oB cB holding (hysteresis_bps params))
             (\<lambda>a. Inr (decision_of_action a))"
    by (simp add: edge_from_closes_def signal2_decision_def truediv_def dc Let_def)
  have side: "\<forall>a. signal2_decision oA cA oB cB holding (hysteresis_bps params) = Inr a \<longrightarrow>
             (if holding = ''A'' then a = Switch_to_B \<or> a = Hold_A
              else a = Switch_to_A \<or> a = Hold_B)"
    by (auto simp: signal2_decision_def truediv_def Let_def split: if_splits)
  from eq side show ?thesis by (simp add: oe)
qed

theorem signal2_refines_engine_decision_witness:
  "(0::nat) < 1
   \<and> sget (col1d demo_table Close_Stock1) (map date demo_table ! (1 - 1)) = Inr 10
   \<and> sget (col1d demo_table Close_Stock2) (map date demo_table ! (1 - 1)) = Inr 10
   \<and> and_then (overnight_edge demo_table 1 10 11)
        (\<lambda>edge_bps. Inr (decide (demo_params 0) 1 day_ns (''A'' = ''A'') None edge_bps))
      = Inr (True, True)
   \<and> signal2_decision 10 10 11 10 ''A'' (hysteresis_bps (demo_params 0)) = Inr Switch_to_B"
proof -
  have h1: "(0::nat) < 1" by simp
  have h2: "sget (col1d demo_table Close_Stock1) (map date demo_table ! (1 - 1)) = Inr 10"
    by (simp add: sget_def col1d_def demo_table_def bar_def)
  have h3: "sget (col1d demo_table Close_Stock2) (map date demo_table ! (1 - 1)) = Inr 10"
    by (simp add: sget_def col1d_def demo_table_def bar_def)
  have h4: "(None :: int option) = None
            \<or> (\<exists>l. None = Some l \<and> cooldown_days (demo_params 0) \<le> days (day_ns - l))"
    by simp
  have s: "signal2_decision 10 10 11 10 ''A'' (hysteresis_bps (demo_params 0)) = Inr Switch_to_B"
    by (simp add: signal2_decision_def truediv_def demo_params_def)
  from signal2_refines_engine_decision [OF h1 h2 h3 h4, of 10 11 "''A''"] h2 h3 s
  show ?thesis by simp
qed

section \<open>Empty input tables\<close>

text \<open>
  Claim C3, as amended. \<^verbatim>\<open>align_two\<close> raises nothing on an empty input table: it returns the
  empty aligned table, on which the backtest returns empty results. The emptiness check is in
  \<^verbatim>\<open>fetch_data\<close>: in \<^verbatim>\<open>main\<close> an empty download raises \<open>ValueError\<close> before the tables are
  aligned and the simulation begins.
\<close>

theorem align_two_empty_input:
  "align_two [] right = [] \<and> align_two left [] = []
   \<and> (download1 = [] \<or> download2 = [] \<longrightarrow>
        main_backtest download1 download2 shares1_init shares2_init cash_init params
          = Inl ValueError)
   \<and> backtest_switching [] shares1_init shares2_init cash_init params
       = Inr (\<lparr>Index = [], Equity_Active = [], Equity_Passive = [], PositionFlag = []\<rparr>,
              \<lparr>Switches = 0, Turnover_Notional = 0, HitRate = None\<rparr>)"
proof -
  have a: "align_two [] right = []" "align_two left [] = []"
    by (simp_all add: align_two_def inner_join_empty dropna_def)
  have m: "main_backtest download1 download2 shares1_init shares2_init cash_init params
          = Inl ValueError" if "download1 = [] \<or> download2 = []"
    using that by (auto simp: main_backtest_def fetch_data_def)
  have b: "backtest_switching [] shares1_init shares2_init cash_init params
       = Inr (\<lparr>Index = [], Equity_Active = [], Equity_Passive = [], PositionFlag = []\<rparr>,
              \<lparr>Switches = 0, Turnover_Notional = 0, HitRate = None\<rparr>)"
    by (simp add: backtest_switching_def engine_run_def init_state_def passive_equity_series_def
        col1d_def hit_rate_def)
  from a m b show ?thesis by blast
qed

theorem align_two_empty_input_witness:
  "([] :: raw_row list) = []
   \<and> main_backtest [] [\<lparr>raw_date = 0, raw_Open = Some 10, raw_Close = Some 10\<rparr>] 100 0 0
        (demo_params 0) = Inl ValueError"
  using align_two_empty_input
    [of "[]" "[]" "[]" "[\<lparr>raw_date = 0, raw_Open = Some 10, raw_Close = Some 10\<rparr>]"
        100 0 0 "demo_params 0"]
  by simp

theorem align_two_empty_input_counterexample:
  "align_two [] [\<lparr>raw_date = 0, raw_Open = Some 10, raw_Close = Some 10\<rparr>] = []
   \<and> backtest_switching
        (align_two [] [\<lparr>raw_date = 0, raw_Open = Some 10, raw_Close = Some 10\<rparr>])
        100 0 0 (demo_params 0)
       = Inr (\<lparr>Index = [], Equity_Active = [], Equity_Passive = [], PositionFlag = []\<rparr>,
              \<lparr>Switches = 0, Turnover_Notional = 0, HitRate = None\<rparr>)"
  by (simp add: align_two_def inner_join_def dropna_def backtest_switching_def engine_run_def
      init_state_def passive_equity_series_def col1d_def hit_rate_def)

end
